theory Spec2Isabelle
  imports Complex_Main
begin

section \<open>G-code writer and spiral vase: a shallow embedding\<close>

text \<open>
  The development embeds \<^verbatim>\<open>src/libslic3r/GCodeWriter.cpp\<close> and
  \<^verbatim>\<open>src/libslic3r/GCode/SpiralVase.cpp\<close>.

  Conventions of the embedding.
  \<^item> A \<^verbatim>\<open>double\<close> or \<^verbatim>\<open>float\<close> is the real number it denotes; sums, differences,
    products and quotients of the writer and of the spiral vase are the exact ones.
    The one product whose rounding a statement depends on, \<^verbatim>\<open>v * pow_10[digits]\<close> of
    \<^verbatim>\<open>GCodeFormatter::emit_axis\<close>, is a parameter of the model.
  \<^item> \<^verbatim>\<open>unsigned int\<close> identifiers are natural numbers, \<^verbatim>\<open>int\<close> temperatures are integers;
    no arithmetic is done on either.
  \<^item> A method that mutates the writer takes the writer and returns the new one beside
    its result. An \<^verbatim>\<open>assert\<close> that fails, a read through an invalid \<^verbatim>\<open>m_extruder\<close> and
    undefined behaviour are error values.
  \<^item> The text a method returns is a list of pieces: literal text written to a string
    stream, and lines built by a \<^verbatim>\<open>GCodeG1Formatter\<close> or \<^verbatim>\<open>GCodeG2G3Formatter\<close>, kept as
    the sequence of \<^verbatim>\<open>emit_*\<close> calls made on the formatter (the formatter classes are
    declared in \<^verbatim>\<open>GCodeWriter.hpp\<close>, which is not among the sources). The empty string
    is the empty list.
\<close>

subsection \<open>Errors and emitted text\<close>

datatype error = AssertionFailure | InvalidPointer | UndefinedBehaviour

type_synonym Vec2d = "real \<times> real"
type_synonym Vec3d = "real \<times> real \<times> real"

fun vec_x :: "Vec3d \<Rightarrow> real" where "vec_x (a, b, c) = a"
fun vec_y :: "Vec3d \<Rightarrow> real" where "vec_y (a, b, c) = b"
fun vec_z :: "Vec3d \<Rightarrow> real" where "vec_z (a, b, c) = c"

definition to_2d :: "Vec3d \<Rightarrow> Vec2d" where
  "to_2d p = (vec_x p, vec_y p)"

definition norm2 :: "Vec2d \<Rightarrow> real" where
  "norm2 v = sqrt (fst v * fst v + snd v * snd v)"

definition normalized :: "Vec2d \<Rightarrow> Vec2d" where
  "normalized v = (fst v / norm2 v, snd v / norm2 v)"

text \<open>One call on a formatter, and one piece of returned text.\<close>

datatype emitted =
    emit_xy Vec2d
  | emit_xyz Vec3d
  | emit_z real
  | emit_ij Vec2d
  | emit_e real
  | emit_f real
  | emit_string string
  | emit_comment bool string

datatype gcode_piece =
    Text string
  | GCodeG1Formatter "emitted list"
  | GCodeG2G3Formatter bool "emitted list"

type_synonym gcode = "gcode_piece list"

subsection \<open>Decimal text of integers\<close>

text \<open>
  \<^verbatim>\<open>std::to_chars\<close> on an integer, and \<^verbatim>\<open>operator<<\<close> of a stream on an \<^verbatim>\<open>int\<close> or
  \<^verbatim>\<open>unsigned int\<close>: the decimal digits, most significant first, after a minus sign
  when the value is negative.
\<close>

fun dec_digits :: "nat \<Rightarrow> string" where
  "dec_digits n =
     (if n < 10 then [''0123456789'' ! n]
      else dec_digits (n div 10) @ [''0123456789'' ! (n mod 10)])"

declare dec_digits.simps [simp del]

definition to_chars :: "int \<Rightarrow> string" where
  "to_chars i = (if i < 0 then CHR ''-'' # dec_digits (nat (- i)) else dec_digits (nat i))"

subsection \<open>The numeric formatter\<close>

definition pow_10 :: "nat list" where
  "pow_10 = [1, 10, 100, 1000, 10000, 100000, 1000000, 10000000, 100000000, 1000000000]"

text \<open>\<^verbatim>\<open>std::round\<close>: the nearest integer, halfway cases away from zero.\<close>

definition std_round :: "real \<Rightarrow> int" where
  "std_round x = (if 0 \<le> x then \<lfloor>x + 1 / 2\<rfloor> else - \<lfloor>- x + 1 / 2\<rfloor>)"

text \<open>
  The loop \<^verbatim>\<open>for (i = 0; i < digits; ++i) { if (*ptr != '0') break; ptr--; }\<close>: the
  first argument counts the iterations left, \<open>ptr\<close> is an offset from \<^verbatim>\<open>base_ptr\<close>.
\<close>

primrec skip_zeros :: "nat \<Rightarrow> string \<Rightarrow> int \<Rightarrow> int" where
  "skip_zeros 0 buf ptr = ptr"
| "skip_zeros (Suc n) buf ptr =
     (if buf ! nat ptr \<noteq> CHR ''0'' then ptr else skip_zeros n buf (ptr - 1))"

text \<open>
  \<^verbatim>\<open>GCodeFormatter::emit_axis\<close>, from \<^verbatim>\<open>base_ptr\<close> on: the characters the method leaves
  between \<^verbatim>\<open>base_ptr\<close> and \<^verbatim>\<open>ptr_err.ptr\<close> for the scaled and rounded value \<open>v_int\<close>.
  \<open>num\<close> is the text from \<^verbatim>\<open>base_ptr\<close> on and \<open>ptr\<close> the offset of \<^verbatim>\<open>ptr_err.ptr\<close> from
  \<^verbatim>\<open>base_ptr\<close>. The two loops that move characters to the right are the list
  operations they compute. The buffer is taken to be large enough, as the caller
  guarantees.
\<close>

definition emit_axis_digits :: "int \<Rightarrow> nat \<Rightarrow> string" where
  "emit_axis_digits v_int digits =
     (let num = to_chars v_int;
          writen_digits = length num - (if v_int < 0 then 1 else 0);
          num = (if writen_digits < digits then
                   (let remaining_digits = digits - writen_digits
                    in take (length num - writen_digits) num
                       @ replicate remaining_digits CHR ''0''
                       @ drop (length num - writen_digits) num)
                 else num);
          ptr = int (length num);
          num = take (length num - digits) num @ [CHR ''.''] @ drop (length num - digits) num;
          ptr = skip_zeros digits num ptr;
          ptr = (if num ! nat ptr = CHR ''.'' then ptr - 1 else ptr);
          zero = (ptr + 1 = 0 \<or> num ! nat ptr = CHR ''-'');
          num = (if zero then num[nat (ptr + 1) := CHR ''0''] else num);
          ptr = (if zero then ptr + 1 else ptr);
          ptr = ptr + 1
      in take (nat ptr) num)"

text \<open>
  \<^verbatim>\<open>GCodeFormatter::emit_axis\<close>. \<open>buf\<close> is the text of the formatter's buffer before
  the call and the result the text after it. \<open>dmul\<close> is the product of two doubles,
  here of \<open>v\<close> and the power of ten (which is a double exactly); \<^verbatim>\<open>std::round\<close> of a
  double is exact, and the conversion to \<^verbatim>\<open>int64_t\<close> of a value outside its range is
  undefined.
\<close>

definition emit_axis ::
    "(real \<Rightarrow> real \<Rightarrow> real) \<Rightarrow> char \<Rightarrow> real \<Rightarrow> nat \<Rightarrow> string \<Rightarrow> error + string" where
  "emit_axis dmul axis v digits buf =
     (if \<not> digits \<le> 9 then Inl AssertionFailure
      else
        let rounded = std_round (dmul v (real (pow_10 ! digits)))
        in if \<not> (- (2 ^ 63) \<le> rounded \<and> rounded < 2 ^ 63) then Inl UndefinedBehaviour
           else Inr (buf @ [CHR '' '', axis] @ emit_axis_digits rounded digits))"

text \<open>
  The text \<open>emit_axis\<close> is compared with: the fixed-point decimal of \<open>n / 10 ^ d\<close> with
  trailing zeros and a trailing point stripped, written without a leading zero before
  the point. \<open>frac_digits d r\<close> are the \<open>d\<close> decimal digits of \<open>r\<close>.
\<close>

primrec frac_digits :: "nat \<Rightarrow> nat \<Rightarrow> string" where
  "frac_digits 0 r = []"
| "frac_digits (Suc d) r = frac_digits d (r div 10) @ [''0123456789'' ! (r mod 10)]"

definition strip_zeros :: "string \<Rightarrow> string" where
  "strip_zeros s = rev (dropWhile (\<lambda>c. c = CHR ''0'') (rev s))"

definition shortest_fixed :: "int \<Rightarrow> nat \<Rightarrow> string" where
  "shortest_fixed n d =
     (let a = nat \<bar>n\<bar>; q = a div 10 ^ d; r = a mod 10 ^ d
      in (if n < 0 then ''-'' else [])
         @ (if q = 0 then (if r = 0 then ''0'' else []) else dec_digits q)
         @ (if r = 0 then [] else CHR ''.'' # strip_zeros (frac_digits d r)))"

text \<open>
  The stages of \<open>emit_axis_digits\<close>, named for the proofs: the padding with zeros,
  the insertion of the decimal point, and the stripping that follows.
\<close>

definition pad_stage :: "int \<Rightarrow> nat \<Rightarrow> string" where
  "pad_stage v_int digits =
     (let num = to_chars v_int;
          writen_digits = length num - (if v_int < 0 then 1 else 0)
      in if writen_digits < digits then
           (let remaining_digits = digits - writen_digits
            in take (length num - writen_digits) num
               @ replicate remaining_digits CHR ''0''
               @ drop (length num - writen_digits) num)
         else num)"

definition point_stage :: "string \<Rightarrow> nat \<Rightarrow> string" where
  "point_stage num digits =
     take (length num - digits) num @ [CHR ''.''] @ drop (length num - digits) num"

definition strip_stage :: "string \<Rightarrow> nat \<Rightarrow> int \<Rightarrow> string" where
  "strip_stage num digits ptr0 =
     (let ptr = skip_zeros digits num ptr0;
          ptr = (if num ! nat ptr = CHR ''.'' then ptr - 1 else ptr);
          zero = (ptr + 1 = 0 \<or> num ! nat ptr = CHR ''-'');
          num = (if zero then num[nat (ptr + 1) := CHR ''0''] else num);
          ptr = (if zero then ptr + 1 else ptr);
          ptr = ptr + 1
      in take (nat ptr) num)"

definition is_digit :: "char \<Rightarrow> bool" where
  "is_digit c = (c \<in> set ''0123456789'')"

definition sign_text :: "int \<Rightarrow> string" where
  "sign_text n = (if n < 0 then ''-'' else [])"

text \<open>
  The number a token denotes, read as \<^verbatim>\<open>atof\<close> reads it: an optional minus sign,
  digits, and after a point more digits.
\<close>

definition digit_value :: "char \<Rightarrow> nat" where
  "digit_value c = of_char c - 48"

definition digits_value :: "string \<Rightarrow> nat" where
  "digits_value s = foldl (\<lambda>acc c. 10 * acc + digit_value c) 0 s"

definition token_value :: "string \<Rightarrow> real" where
  "token_value s =
     (let neg = (s \<noteq> [] \<and> hd s = CHR ''-'');
          body = (if neg then tl s else s);
          int_part = takeWhile (\<lambda>c. c \<noteq> CHR ''.'') body;
          frac_part = drop (length int_part + 1) body
      in (if neg then - 1 else 1)
         * (real (digits_value int_part) + real (digits_value frac_part) / 10 ^ length frac_part))"

subsection \<open>Stream output of a double\<close>

text \<open>
  \<^verbatim>\<open>os << std::setprecision(p) << x\<close> on a stream whose \<^verbatim>\<open>floatfield\<close> is not set (no
  \<^verbatim>\<open>std::fixed\<close>, no \<^verbatim>\<open>std::scientific\<close>) converts \<open>x\<close> as \<^verbatim>\<open>printf\<close> does with
  \<^verbatim>\<open>%.pg\<close>: \<open>p\<close> significant digits; fixed notation when the decimal exponent \<open>X\<close>
  of the rounded value satisfies \<open>- 4 \<le> X < p\<close>, scientific notation otherwise;
  trailing zeros of the fraction and a point left without fraction removed. The
  conversion rounds the exact value of the double; a tie goes to the even digit.
\<close>

definition round_half_even :: "real \<Rightarrow> int" where
  "round_half_even x =
     (let f = \<lfloor>x\<rfloor>
      in if x - of_int f < 1 / 2 then f
         else if 1 / 2 < x - of_int f then f + 1
         else if even f then f else f + 1)"

text \<open>How often a positive value below 1 is multiplied by 10 until it reaches 1.\<close>

function leading_zeros :: "real \<Rightarrow> nat" where
  "leading_zeros v = (if 0 < v \<and> v < 1 then Suc (leading_zeros (10 * v)) else 0)"
  by pat_completeness auto
termination
proof (relation "measure (\<lambda>v. nat \<lceil>1 / v\<rceil>)")
  show "wf (measure (\<lambda>v. nat \<lceil>1 / v\<rceil>))" by simp
next
  fix v :: real
  assume "0 < v \<and> v < 1"
  then have x: "1 < 1 / v" by simp
  have "nat \<lceil>(1 / v) / 10\<rceil> < nat \<lceil>1 / v\<rceil>"
  proof -
    have c: "2 \<le> \<lceil>1 / v\<rceil>" using x by linarith
    show ?thesis
    proof (cases "1 / v \<le> 10")
      case True
      then have "\<lceil>(1 / v) / 10\<rceil> \<le> 1" by (simp add: ceiling_le_iff)
      with c show ?thesis by linarith
    next
      case False
      then have "(1 / v) / 10 \<le> 1 / v - 1" by simp
      then have "\<lceil>(1 / v) / 10\<rceil> \<le> \<lceil>1 / v - 1\<rceil>" by (rule ceiling_mono)
      then have "\<lceil>(1 / v) / 10\<rceil> \<le> \<lceil>1 / v\<rceil> - 1" by simp
      with c show ?thesis by linarith
    qed
  qed
  then show "(10 * v, v) \<in> measure (\<lambda>v. nat \<lceil>1 / v\<rceil>)"
    by (simp add: field_simps)
qed

declare leading_zeros.simps [simp del]

text \<open>The decimal exponent of a positive value: \<open>10 ^ X \<le> v < 10 ^ (X + 1)\<close>.\<close>

definition decimal_exponent :: "real \<Rightarrow> int" where
  "decimal_exponent v =
     (if 1 \<le> v then int (length (dec_digits (nat \<lfloor>v\<rfloor>))) - 1 else - int (leading_zeros v))"

definition pow10 :: "int \<Rightarrow> real" where
  "pow10 k = (if 0 \<le> k then 10 ^ nat k else 1 / 10 ^ nat (- k))"

text \<open>The digits of \<open>N / 10 ^ k\<close> in fixed notation, trailing zeros and point removed.\<close>

definition fixed_stripped :: "nat \<Rightarrow> nat \<Rightarrow> string" where
  "fixed_stripped N k =
     dec_digits (N div 10 ^ k)
     @ (if N mod 10 ^ k = 0 then [] else CHR ''.'' # strip_zeros (frac_digits k (N mod 10 ^ k)))"

definition printf_g :: "nat \<Rightarrow> real \<Rightarrow> string" where
  "printf_g precision v =
     (let P = (if precision = 0 then 1 else precision);
          a = \<bar>v\<bar>;
          X0 = (if a = 0 then 0 else decimal_exponent a);
          m = round_half_even (a / pow10 X0 * 10 ^ (P - 1));
          X = (if m = 10 ^ P then X0 + 1 else X0);
          m = (if m = 10 ^ P then 10 ^ (P - 1) else m)
      in (if v < 0 then ''-'' else [])
         @ (if - 4 \<le> X \<and> X < int P then
              fixed_stripped (nat (round_half_even (a * 10 ^ nat (int P - 1 - X)))) (nat (int P - 1 - X))
            else
              fixed_stripped (nat m) (P - 1)
              @ ''e'' @ (if X < 0 then ''-'' else ''+'')
              @ (if \<bar>X\<bar> < 10 then ''0'' else []) @ dec_digits (nat \<bar>X\<bar>)))"

text \<open>
  What the claim about \<open>set_pressure_advance\<close> is compared with: a non-negative value
  at a fixed number of decimals, as \<^verbatim>\<open>printf\<close> writes it with \<^verbatim>\<open>%.kf\<close>.
\<close>

definition fixed_decimals :: "nat \<Rightarrow> real \<Rightarrow> string" where
  "fixed_decimals k v =
     (let N = nat (round_half_even (v * 10 ^ k))
      in dec_digits (N div 10 ^ k) @ (if k = 0 then [] else CHR ''.'' # frac_digits k (N mod 10 ^ k)))"

subsection \<open>The writer's state\<close>

datatype GCodeFlavor =
    gcfMarlinLegacy | gcfMarlinFirmware | gcfKlipper | gcfRepRapFirmware
  | gcfRepRapSprinter | gcfTeacup | gcfRepetier | gcfSmoothie
  | gcfMakerWare | gcfSailfish | gcfMach3 | gcfMachinekit

text \<open>
  \<^verbatim>\<open>LiftType\<close> is declared in the header. The source names \<^verbatim>\<open>LazyLift\<close> and
  \<^verbatim>\<open>SpiralLift\<close>; \<open>NormalLift\<close> stands for every other enumerator (the immediate lift).
\<close>

datatype LiftType = NormalLift | LazyLift | SpiralLift

text \<open>
  Modelled from the spec: the class \<^verbatim>\<open>Extruder\<close> (the spec's ExtruderState) is not among
  the sources. The spec gives it a tool id and an accumulated filament position (the E
  coordinate); \<^verbatim>\<open>extrude\<close> accounts a filament delta and \<^verbatim>\<open>reset_E\<close> is the
  extruder-position reset.
\<close>

record Extruder =
  m_id :: nat
  m_E :: real

definition Extruder_new :: "nat \<Rightarrow> Extruder" where
  "Extruder_new extruder_id = \<lparr>m_id = extruder_id, m_E = 0\<rparr>"

definition Extruder_extrude :: "real \<Rightarrow> Extruder \<Rightarrow> Extruder" where
  "Extruder_extrude dE ex = ex\<lparr>m_E := m_E ex + dE\<rparr>"

definition Extruder_reset_E :: "Extruder \<Rightarrow> Extruder" where
  "Extruder_reset_E ex = ex\<lparr>m_E := 0\<rparr>"

text \<open>
  The options of \<^verbatim>\<open>config\<close> that the embedded methods read. \<open>z_hop\<close> is
  \<^verbatim>\<open>config.z_hop.get_at\<close>, a value for every extruder id.
\<close>

record GCodeConfig =
  gcode_flavor :: GCodeFlavor
  use_relative_e_distances :: bool
  travel_speed :: real
  travel_speed_z :: real
  z_hop :: "nat \<Rightarrow> real"

text \<open>
  The fields of \<^verbatim>\<open>GCodeWriter\<close> that the embedded methods read or write.
  \<open>m_extruder\<close> is a pointer into \<open>m_extruders\<close>: \<open>None\<close> is \<^verbatim>\<open>nullptr\<close>,
  \<open>Some i\<close> the address of element \<open>i\<close>. \<open>m_is_current_pos_clear\<close> is the flag behind
  \<^verbatim>\<open>is_current_position_clear()\<close> and \<^verbatim>\<open>set_current_position_clear(bool)\<close>.
\<close>

record GCodeWriter =
  config :: GCodeConfig
  multiple_extruders :: bool
  m_extruders :: "Extruder list"
  m_extruder :: "nat option"
  m_is_bbl_printers :: bool
  m_last_bed_temperature :: int
  m_last_bed_temperature_reached :: bool
  m_lifted :: real
  m_to_lift :: real
  m_to_lift_type :: LiftType
  m_pos :: Vec3d
  m_x_offset :: real
  m_y_offset :: real
  m_is_current_pos_clear :: bool

definition full_gcode_comment :: bool where
  "full_gcode_comment = True"

definition slope_threshold :: real where
  "slope_threshold = 3 * pi / 180"

text \<open>\<^verbatim>\<open>std::numeric_limits<double>::epsilon()\<close>.\<close>

definition double_epsilon :: real where
  "double_epsilon = 1 / 2 ^ 52"

text \<open>\<^verbatim>\<open>atan2(y, x)\<close> on finite arguments.\<close>

definition atan2 :: "real \<Rightarrow> real \<Rightarrow> real" where
  "atan2 y x =
     (if 0 < x then arctan (y / x)
      else if x < 0 then (if 0 \<le> y then arctan (y / x) + pi else arctan (y / x) - pi)
      else if 0 < y then pi / 2
      else if y < 0 then - (pi / 2)
      else 0)"

definition is_current_position_clear :: "GCodeWriter \<Rightarrow> bool" where
  "is_current_position_clear w = m_is_current_pos_clear w"

definition set_current_position_clear :: "bool \<Rightarrow> GCodeWriter \<Rightarrow> GCodeWriter" where
  "set_current_position_clear clear w = w\<lparr>m_is_current_pos_clear := clear\<rparr>"

text \<open>
  A read through \<open>m_extruder\<close>, and a call of a mutating \<^verbatim>\<open>Extruder\<close> method through it.
  A pointer that is null, or that does not address an element of \<open>m_extruders\<close>, is an
  error.
\<close>

definition deref_extruder :: "GCodeWriter \<Rightarrow> error + Extruder" where
  "deref_extruder w =
     (case m_extruder w of
        None \<Rightarrow> Inl InvalidPointer
      | Some i \<Rightarrow> if i < length (m_extruders w) then Inr (m_extruders w ! i) else Inl InvalidPointer)"

definition update_extruder :: "(Extruder \<Rightarrow> Extruder) \<Rightarrow> GCodeWriter \<Rightarrow> error + GCodeWriter" where
  "update_extruder f w =
     (case m_extruder w of
        None \<Rightarrow> Inl InvalidPointer
      | Some i \<Rightarrow>
          if i < length (m_extruders w)
          then Inr (w\<lparr>m_extruders := (m_extruders w)[i := f (m_extruders w ! i)]\<rparr>)
          else Inl InvalidPointer)"

subsection \<open>Extruder selection and temperature\<close>

text \<open>
  \<^verbatim>\<open>set_extruders\<close>: the ids are sorted, one \<^verbatim>\<open>Extruder\<close> is built for each, and
  \<open>multiple_extruders\<close> is set when the largest id is greater than 0.
  \<^verbatim>\<open>*std::max_element\<close> of an empty range is undefined.
\<close>

definition set_extruders :: "nat list \<Rightarrow> GCodeWriter \<Rightarrow> error + GCodeWriter" where
  "set_extruders extruder_ids w =
     (let extruder_ids = sort extruder_ids;
          w1 = w\<lparr>m_extruders := map Extruder_new extruder_ids\<rparr>
      in if extruder_ids = [] then Inl UndefinedBehaviour
         else Inr (w1\<lparr>multiple_extruders := (0 < Max (set extruder_ids))\<rparr>))"

definition set_bed_temperature :: "int \<Rightarrow> bool \<Rightarrow> GCodeWriter \<Rightarrow> gcode \<times> GCodeWriter" where
  "set_bed_temperature temperature wait w =
     (if temperature = m_last_bed_temperature w \<and> (\<not> wait \<or> m_last_bed_temperature_reached w)
      then ([], w)
      else
        let w1 = w\<lparr>m_last_bed_temperature := temperature, m_last_bed_temperature_reached := wait\<rparr>;
            code = (if wait then ''M190'' else ''M140'');
            comment = (if wait then ''set bed temperature and wait for it to be reached''
                       else ''set bed temperature'')
        in ([Text (code @ '' S'' @ to_chars temperature @ '' ; '' @ comment @ ''\<newline>'')], w1))"

definition set_pressure_advance :: "real \<Rightarrow> GCodeWriter \<Rightarrow> gcode" where
  "set_pressure_advance pa w =
     (if pa < 0 then []
      else if m_is_bbl_printers w then
        [Text (''M900 K'' @ printf_g 4 pa @ '' L1000 M10 ; Override pressure advance value\<newline>'')]
      else if gcode_flavor (config w) = gcfKlipper then
        [Text (''SET_PRESSURE_ADVANCE ADVANCE='' @ printf_g 4 pa
               @ ''; Override pressure advance value\<newline>'')]
      else if gcode_flavor (config w) = gcfRepRapFirmware then
        [Text (''M572 D0 S'' @ printf_g 4 pa @ ''; Override pressure advance value\<newline>'')]
      else
        [Text (''M900 K'' @ printf_g 4 pa @ ''; Override pressure advance value\<newline>'')])"

definition reset_e_text :: "GCodeWriter \<Rightarrow> gcode" where
  "reset_e_text w =
     (if \<not> use_relative_e_distances (config w)
      then [Text (''G92 E0'' @ (if full_gcode_comment then '' ; reset extrusion distance'' else [])
                   @ ''\<newline>'')]
      else [])"

definition reset_e :: "bool \<Rightarrow> GCodeWriter \<Rightarrow> error + gcode \<times> GCodeWriter" where
  "reset_e force w =
     (if gcode_flavor (config w) = gcfMach3 \<or> gcode_flavor (config w) = gcfMakerWare
          \<or> gcode_flavor (config w) = gcfSailfish
      then Inr ([], w)
      else
        (case m_extruder w of
           None \<Rightarrow> Inr (reset_e_text w, w)
         | Some i \<Rightarrow>
             (case deref_extruder w of
                Inl e \<Rightarrow> Inl e
              | Inr ex \<Rightarrow>
                  if m_E ex = 0 \<and> \<not> force then Inr ([], w)
                  else (case update_extruder Extruder_reset_E w of
                          Inl e \<Rightarrow> Inl e
                        | Inr w1 \<Rightarrow> Inr (reset_e_text w1, w1)))))"

definition toolchange_prefix :: "GCodeWriter \<Rightarrow> string" where
  "toolchange_prefix w =
     (if gcode_flavor (config w) = gcfMakerWare then ''M135 T''
      else if gcode_flavor (config w) = gcfSailfish then ''M108 T''
      else ''T'')"

text \<open>
  \<^verbatim>\<open>Slic3r::lower_bound_by_predicate\<close> over a range partitioned by the predicate: the
  position of the first element that does not satisfy it (the length when there is
  none).
\<close>

definition lower_bound_by_predicate :: "'a list \<Rightarrow> ('a \<Rightarrow> bool) \<Rightarrow> nat" where
  "lower_bound_by_predicate xs lower_than = length (takeWhile lower_than xs)"

definition toolchange :: "nat \<Rightarrow> GCodeWriter \<Rightarrow> error + gcode \<times> GCodeWriter" where
  "toolchange extruder_id w =
     (let it_extruder = lower_bound_by_predicate (m_extruders w) (\<lambda>e. m_id e < extruder_id)
      in if \<not> (it_extruder \<noteq> length (m_extruders w)
                \<and> m_id (m_extruders w ! it_extruder) = extruder_id)
         then Inl AssertionFailure
         else
           let w1 = w\<lparr>m_extruder := Some it_extruder\<rparr>
           in if multiple_extruders w1
              then (case reset_e True w1 of
                      Inl e \<Rightarrow> Inl e
                    | Inr (g, w2) \<Rightarrow>
                        Inr ([Text (toolchange_prefix w1 @ dec_digits extruder_id
                                @ (if full_gcode_comment then '' ; change extruder'' else [])
                                @ ''\<newline>'')] @ g, w2))
              else Inr ([], w1))"

subsection \<open>Travel moves and the lift\<close>

definition travel_to_xy :: "Vec2d \<Rightarrow> string \<Rightarrow> GCodeWriter \<Rightarrow> gcode \<times> GCodeWriter" where
  "travel_to_xy point comment w =
     (let w1 = w\<lparr>m_pos := (fst point, snd point, vec_z (m_pos w))\<rparr>;
          w2 = set_current_position_clear True w1;
          point_on_plate = (fst point - m_x_offset w2, snd point - m_y_offset w2)
      in ([GCodeG1Formatter
             [emit_xy point_on_plate,
              emit_f (travel_speed (config w2) * 60),
              emit_comment full_gcode_comment comment]], w2))"

definition underscore_travel_to_z :: "real \<Rightarrow> string \<Rightarrow> GCodeWriter \<Rightarrow> gcode \<times> GCodeWriter" where
  "underscore_travel_to_z z comment w =
     (let w1 = w\<lparr>m_pos := (vec_x (m_pos w), vec_y (m_pos w), z)\<rparr>;
          speed = travel_speed_z (config w1);
          speed = (if speed = 0 then travel_speed (config w1) else speed)
      in ([GCodeG1Formatter
             [emit_z z, emit_f (speed * 60), emit_comment full_gcode_comment comment]], w1))"

definition underscore_spiral_travel_to_z ::
    "real \<Rightarrow> Vec2d \<Rightarrow> string \<Rightarrow> GCodeWriter \<Rightarrow> gcode \<times> GCodeWriter" where
  "underscore_spiral_travel_to_z z ij_offset comment w =
     (let w1 = w\<lparr>m_pos := (vec_x (m_pos w), vec_y (m_pos w), z)\<rparr>;
          speed = travel_speed_z (config w1);
          speed = (if speed = 0 then travel_speed (config w1) else speed)
      in ([Text ''G17\<newline>'',
           GCodeG2G3Formatter True
             [emit_z z, emit_ij ij_offset, emit_string '' P1 '', emit_f (speed * 60),
              emit_comment full_gcode_comment comment]], w1))"

text \<open>\<open>EPSILON\<close> is the macro of \<^verbatim>\<open>libslic3r.h\<close> (not among the sources): a parameter.\<close>

definition will_move_z :: "real \<Rightarrow> real \<Rightarrow> GCodeWriter \<Rightarrow> bool" where
  "will_move_z EPSILON z w =
     (if 0 < m_lifted w then
        (let nominal_z = vec_z (m_pos w) - m_lifted w
         in if nominal_z \<le> z \<and> z \<le> vec_z (m_pos w) then False else True)
      else if \<bar>vec_z (m_pos w) - z\<bar> < EPSILON then False
      else True)"

definition travel_to_z :: "real \<Rightarrow> real \<Rightarrow> string \<Rightarrow> GCodeWriter \<Rightarrow> gcode \<times> GCodeWriter" where
  "travel_to_z EPSILON z comment w =
     (if \<not> will_move_z EPSILON z w then
        (let nominal_z = vec_z (m_pos w) - m_lifted w;
             w1 = w\<lparr>m_lifted := m_lifted w - (z - nominal_z)\<rparr>;
             w2 = (if \<bar>m_lifted w1\<bar> < EPSILON then w1\<lparr>m_lifted := 0\<rparr> else w1)
         in ([], w2))
      else underscore_travel_to_z z comment (w\<lparr>m_lifted := 0\<rparr>))"

definition travel_to_xyz ::
    "real \<Rightarrow> Vec3d \<Rightarrow> string \<Rightarrow> GCodeWriter \<Rightarrow> error + gcode \<times> GCodeWriter" where
  "travel_to_xyz EPSILON point comment w =
     (if EPSILON < \<bar>m_to_lift w\<bar> then
        (if \<not> \<bar>m_lifted w\<bar> < EPSILON then Inl AssertionFailure
         else
           let do_lift = ((\<not> is_current_position_clear w \<or> m_pos w \<noteq> point)
                           \<and> vec_z point < m_to_lift w + vec_z (m_pos w));
               w1 = (if do_lift then w\<lparr>m_lifted := m_to_lift w + vec_z (m_pos w) - vec_z point\<rparr>
                     else w);
               dest_point = (if do_lift then (vec_x point, vec_y point, m_to_lift w + vec_z (m_pos w))
                             else point);
               w2 = w1\<lparr>m_to_lift := 0\<rparr>;
               source = (vec_x (m_pos w2) - m_x_offset w2, vec_y (m_pos w2) - m_y_offset w2,
                         vec_z (m_pos w2));
               target = (vec_x dest_point - m_x_offset w2, vec_y dest_point - m_y_offset w2,
                         vec_z dest_point);
               delta = (vec_x target - vec_x source, vec_y target - vec_y source,
                        vec_z target - vec_z source);
               delta_no_z = (vec_x delta, vec_y delta);
               (slop_move, w3) =
                 (if is_current_position_clear w2 \<and> 0 < vec_z delta \<and> norm2 delta_no_z \<noteq> 0 then
                    (let radius = vec_z delta / (2 * pi * arctan slope_threshold);
                         ij_offset = (radius * fst (normalized delta_no_z),
                                      radius * snd (normalized delta_no_z));
                         ij_offset = (- snd ij_offset, fst ij_offset)
                     in if m_to_lift_type w2 = SpiralLift then
                          underscore_spiral_travel_to_z (vec_z target) ij_offset ''spiral lift Z'' w2
                        else if atan2 (vec_z delta) (norm2 delta_no_z) < slope_threshold then
                          (let temp = (fst (normalized delta_no_z) * vec_z delta / tan slope_threshold,
                                       snd (normalized delta_no_z) * vec_z delta / tan slope_threshold);
                               slope_top_point = (fst temp + vec_x source, snd temp + vec_y source,
                                                  vec_z delta + vec_z source)
                           in ([GCodeG1Formatter
                                  [emit_xyz slope_top_point,
                                   emit_f (travel_speed (config w2) * 60),
                                   emit_comment full_gcode_comment comment]], w2))
                        else ([], w2))
                  else ([], w2));
               w4 = set_current_position_clear True (w3\<lparr>m_pos := dest_point\<rparr>)
           in Inr (slop_move @
                   [GCodeG1Formatter
                      [emit_xyz target,
                       emit_f (travel_speed (config w4) * 60),
                       emit_comment full_gcode_comment comment]], w4))
      else if \<not> will_move_z EPSILON (vec_z point) w then
        (let nominal_z = vec_z (m_pos w) - m_lifted w;
             w1 = w\<lparr>m_lifted := m_lifted w - (vec_z point - nominal_z)\<rparr>;
             w2 = (if \<bar>m_lifted w1\<bar> < EPSILON then w1\<lparr>m_lifted := 0\<rparr> else w1);
             w3 = set_current_position_clear True w2
         in Inr (travel_to_xy (to_2d point) [] w3))
      else
        (let w1 = w\<lparr>m_lifted := 0, m_pos := point\<rparr>;
             w2 = set_current_position_clear True w1;
             point_on_plate = (vec_x point - m_x_offset w2, vec_y point - m_y_offset w2, vec_z point);
             w3 = w2\<lparr>m_pos := point\<rparr>
         in Inr ([GCodeG1Formatter
                    [emit_xyz point_on_plate,
                     emit_f (travel_speed (config w3) * 60),
                     emit_comment full_gcode_comment comment]], w3)))"

definition lift :: "LiftType \<Rightarrow> GCodeWriter \<Rightarrow> error + gcode \<times> GCodeWriter" where
  "lift lift_type w =
     (case deref_extruder w of
        Inl e \<Rightarrow> Inl e
      | Inr ex \<Rightarrow>
          let target_lift = z_hop (config w) (m_id ex)
          in if m_lifted w = 0 \<and> m_to_lift w = 0 \<and> 0 < target_lift then
               (if lift_type = LazyLift \<or> lift_type = SpiralLift then
                  Inr ([], w\<lparr>m_to_lift := target_lift, m_to_lift_type := lift_type\<rparr>)
                else
                  Inr (underscore_travel_to_z (vec_z (m_pos w) + target_lift) ''lift Z''
                         (w\<lparr>m_lifted := target_lift\<rparr>)))
             else Inr ([], w))"

definition unlift :: "GCodeWriter \<Rightarrow> gcode \<times> GCodeWriter" where
  "unlift w =
     (let (gcode, w1) =
            (if 0 < m_lifted w then
               (let (g, w') = underscore_travel_to_z (vec_z (m_pos w) - m_lifted w)
                                ''restore layer Z'' w
                in (g, w'\<lparr>m_lifted := 0\<rparr>))
             else ([], w))
      in (gcode, w1\<lparr>m_to_lift := 0\<rparr>))"

subsection \<open>Extruding moves\<close>

definition extrude_to_xy ::
    "Vec2d \<Rightarrow> real \<Rightarrow> string \<Rightarrow> bool \<Rightarrow> GCodeWriter \<Rightarrow> error + gcode \<times> GCodeWriter" where
  "extrude_to_xy point dE comment force_no_extrusion w =
     (let w1 = w\<lparr>m_pos := (fst point, snd point, vec_z (m_pos w))\<rparr>;
          force_no_extrusion = (if \<bar>dE\<bar> \<le> double_epsilon then True else force_no_extrusion);
          point_on_plate = (fst point - m_x_offset w1, snd point - m_y_offset w1)
      in if force_no_extrusion then
           Inr ([GCodeG1Formatter
                   [emit_xy point_on_plate, emit_comment full_gcode_comment comment]], w1)
         else
           (case update_extruder (Extruder_extrude dE) w1 of
              Inl e \<Rightarrow> Inl e
            | Inr w2 \<Rightarrow>
                (case deref_extruder w2 of
                   Inl e \<Rightarrow> Inl e
                 | Inr ex \<Rightarrow>
                     Inr ([GCodeG1Formatter
                             [emit_xy point_on_plate, emit_e (m_E ex),
                              emit_comment full_gcode_comment comment]], w2))))"

definition extrude_arc_to_xy ::
    "Vec2d \<Rightarrow> Vec2d \<Rightarrow> real \<Rightarrow> bool \<Rightarrow> string \<Rightarrow> bool \<Rightarrow> GCodeWriter
      \<Rightarrow> error + gcode \<times> GCodeWriter" where
  "extrude_arc_to_xy point center_offset dE is_ccw comment force_no_extrusion w =
     (let w1 = w\<lparr>m_pos := (fst point, snd point, vec_z (m_pos w))\<rparr>;
          point_on_plate = (fst point - m_x_offset w1, snd point - m_y_offset w1)
      in if force_no_extrusion then
           Inr ([GCodeG2G3Formatter is_ccw
                   [emit_xy point_on_plate, emit_ij center_offset,
                    emit_comment full_gcode_comment comment]], w1)
         else
           (case update_extruder (Extruder_extrude dE) w1 of
              Inl e \<Rightarrow> Inl e
            | Inr w2 \<Rightarrow>
                (case deref_extruder w2 of
                   Inl e \<Rightarrow> Inl e
                 | Inr ex \<Rightarrow>
                     Inr ([GCodeG2G3Formatter is_ccw
                             [emit_xy point_on_plate, emit_ij center_offset, emit_e (m_E ex),
                              emit_comment full_gcode_comment comment]], w2))))"

definition extrude_to_xyz ::
    "Vec3d \<Rightarrow> real \<Rightarrow> string \<Rightarrow> bool \<Rightarrow> GCodeWriter \<Rightarrow> error + gcode \<times> GCodeWriter" where
  "extrude_to_xyz point dE comment force_no_extrusion w =
     (let w1 = w\<lparr>m_pos := point, m_lifted := 0\<rparr>;
          point_on_plate = (vec_x point - m_x_offset w1, vec_y point - m_y_offset w1, vec_z point)
      in if force_no_extrusion then
           Inr ([GCodeG1Formatter
                   [emit_xyz point_on_plate, emit_comment full_gcode_comment comment]], w1)
         else
           (case update_extruder (Extruder_extrude dE) w1 of
              Inl e \<Rightarrow> Inl e
            | Inr w2 \<Rightarrow>
                (case deref_extruder w2 of
                   Inl e \<Rightarrow> Inl e
                 | Inr ex \<Rightarrow>
                     Inr ([GCodeG1Formatter
                             [emit_xyz point_on_plate, emit_e (m_E ex),
                              emit_comment full_gcode_comment comment]], w2))))"

subsection \<open>Spiral vase\<close>

type_synonym SpiralPoint = "real \<times> real"

definition distance :: "SpiralPoint \<Rightarrow> SpiralPoint \<Rightarrow> real" where
  "distance a b = sqrt ((fst a - fst b) ^ 2 + (snd a - snd b) ^ 2)"

definition subtract :: "SpiralPoint \<Rightarrow> SpiralPoint \<Rightarrow> SpiralPoint" where
  "subtract a b = (fst a - fst b, snd a - snd b)"

definition add :: "SpiralPoint \<Rightarrow> SpiralPoint \<Rightarrow> SpiralPoint" where
  "add a b = (fst a + fst b, snd a + snd b)"

definition scale :: "SpiralPoint \<Rightarrow> real \<Rightarrow> SpiralPoint" where
  "scale a factor = (fst a * factor, snd a * factor)"

definition dot :: "SpiralPoint \<Rightarrow> SpiralPoint \<Rightarrow> real" where
  "dot a b = fst a * fst b + snd a * snd b"

text \<open>
  \<^verbatim>\<open>nearest_point_on_line\<close> returns the closest point and, through \<^verbatim>\<open>dist\<close>, its
  distance. For a segment of length zero the quotient is 0/0, not a number, and so are
  the point and the distance: every comparison with them is false. \<open>None\<close> stands for
  that result.
\<close>

definition nearest_point_on_line ::
    "SpiralPoint \<Rightarrow> SpiralPoint \<Rightarrow> SpiralPoint \<Rightarrow> (SpiralPoint \<times> real) option" where
  "nearest_point_on_line c a b =
     (let ab = subtract b a;
          ca = subtract c a
      in if dot ab ab = 0 then None
         else
           let t = dot ca ab / dot ab ab;
               t = (if 1 < t then 1 else t);
               t = (if t < 0 then 0 else t);
               closest = add a (scale ab t)
           in Some (closest, distance c closest))"

text \<open>\<^verbatim>\<open>std::numeric_limits<float>::max()\<close>.\<close>

definition FLT_MAX :: real where
  "FLT_MAX = (2 - 1 / 2 ^ 23) * 2 ^ 127"

text \<open>
  The loop of \<^verbatim>\<open>nearest_point_on_polygon\<close> over the segments, on the triple of \<^verbatim>\<open>min\<close>,
  \<^verbatim>\<open>closest\<close> and \<^verbatim>\<open>found\<close>.
\<close>

fun nearest_segments ::
    "SpiralPoint \<Rightarrow> SpiralPoint list \<Rightarrow> real \<times> SpiralPoint \<times> bool \<Rightarrow> real \<times> SpiralPoint \<times> bool" where
  "nearest_segments p (a # b # points) (minimum, closest, found) =
     nearest_segments p (b # points)
       (case nearest_point_on_line p a b of
          None \<Rightarrow> (minimum, closest, found)
        | Some (current, currentDist) \<Rightarrow>
            if currentDist < minimum then (currentDist, current, True)
            else (minimum, closest, found))"
| "nearest_segments p points acc = acc"

text \<open>
  \<^verbatim>\<open>nearest_point_on_polygon\<close>. \<^verbatim>\<open>found\<close> and \<^verbatim>\<open>dist\<close> are passed by reference: the
  arguments \<open>found\<close> and \<open>dist0\<close> are their values before the call, the result holds
  the returned point and their values after it.
\<close>

definition nearest_point_on_polygon ::
    "SpiralPoint \<Rightarrow> SpiralPoint list \<Rightarrow> bool \<Rightarrow> real \<Rightarrow> SpiralPoint \<times> bool \<times> real" where
  "nearest_point_on_polygon p points found dist0 =
     (if length points < 2 then ((0, 0), False, dist0)
      else
        let (minimum, closest, found) = nearest_segments p points (FLT_MAX, (0, 0), found)
        in (closest, found, minimum))"

text \<open>
  Modelled from the spec: \<^verbatim>\<open>GCodeReader\<close> and its \<^verbatim>\<open>GCodeLine\<close> are not among the
  sources. A line is given with its command word, the values and the presence of its
  axis words (\<^verbatim>\<open>line.x()\<close>, \<^verbatim>\<open>line.e()\<close>, \<^verbatim>\<open>line.has(Z)\<close>), and with what the reader
  answers for it at its place in the layer: \<^verbatim>\<open>extruding(reader)\<close>, \<^verbatim>\<open>dist_XY(reader)\<close>,
  \<^verbatim>\<open>dist_Z(reader)\<close> and \<^verbatim>\<open>new_Z(reader)\<close>. The callback of the rewriting pass takes its
  line by value, so both passes over a layer see the same answers. \<^verbatim>\<open>line.set\<close> stores
  the value of an axis word; the text \<^verbatim>\<open>line.raw()\<close> is not modelled, a layer of G-code
  is the list of its lines.
\<close>

datatype Axis = X | Y | Z | E

record GCodeLine =
  cmd :: string
  m_axis :: "Axis \<Rightarrow> real"
  m_mask :: "Axis \<Rightarrow> bool"
  extruding :: bool
  dist_XY :: real
  dist_Z :: real
  new_Z :: real

definition GCodeLine_set :: "Axis \<Rightarrow> real \<Rightarrow> GCodeLine \<Rightarrow> GCodeLine" where
  "GCodeLine_set axis new_value line =
     line\<lparr>m_axis := (m_axis line)(axis := new_value), m_mask := (m_mask line)(axis := True)\<rparr>"

text \<open>
  The members of \<^verbatim>\<open>SpiralVase\<close> that \<^verbatim>\<open>process_layer\<close> reads or writes; of \<open>m_config\<close>
  only \<^verbatim>\<open>use_relative_e_distances\<close> is read. \<open>m_previous_layer\<close> is a pointer to a vector:
  \<open>None\<close> is \<^verbatim>\<open>NULL\<close>.
\<close>

record SpiralVase =
  m_enabled :: bool
  m_smooth_spiral :: bool
  m_transition_layer :: bool
  m_config :: GCodeConfig
  m_previous_layer :: "SpiralPoint list option"

text \<open>The callback of the first pass, on \<open>(total_layer_length, layer_height, z, set_z)\<close>.\<close>

definition prescan_line :: "GCodeLine \<Rightarrow> real \<times> real \<times> real \<times> bool \<Rightarrow> real \<times> real \<times> real \<times> bool" where
  "prescan_line line = (\<lambda>(total_layer_length, layer_height, z, set_z).
     if cmd line = ''G1'' then
       (if extruding line then (total_layer_length + dist_XY line, layer_height, z, set_z)
        else if m_mask line Z then
          (total_layer_length, layer_height + dist_Z line, (if \<not> set_z then new_Z line else z), True)
        else (total_layer_length, layer_height, z, set_z))
     else (total_layer_length, layer_height, z, set_z))"

definition prescan :: "GCodeLine list \<Rightarrow> real \<times> real \<times> real \<times> bool" where
  "prescan gcode = foldl (\<lambda>acc line. prescan_line line acc) (0, 0, 0, False) gcode"

text \<open>\<^verbatim>\<open>float max_xy_dist_for_smoothing = 0.8\<close>: the float nearest to 0.8.\<close>

definition max_xy_dist_for_smoothing :: real where
  "max_xy_dist_for_smoothing = 13421773 / 2 ^ 24"

text \<open>
  The block \<^verbatim>\<open>if (smooth_spiral) { ... }\<close> of the second callback: from the line with its
  Z already set, the points stored so far and the last point, to the three after it;
  \<open>dist_xy\<close> is the local \<^verbatim>\<open>dist_XY\<close> of the callback.
\<close>

definition smooth_spiral_block ::
    "SpiralPoint list option \<Rightarrow> real \<Rightarrow> real \<Rightarrow> GCodeLine \<times> SpiralPoint list \<times> SpiralPoint
      \<Rightarrow> GCodeLine \<times> SpiralPoint list \<times> SpiralPoint" where
  "smooth_spiral_block previous_layer factor dist_xy = (\<lambda>(line, current_layer, last_point).
     let p = (m_axis line X, m_axis line Y);
         current_layer = current_layer @ [p]
     in case previous_layer of
          None \<Rightarrow> (line, current_layer, last_point)
        | Some previous \<Rightarrow>
            let (nearestp, found, dist0) = nearest_point_on_polygon p previous False 0
            in if found \<and> dist0 < max_xy_dist_for_smoothing then
                 (let target = add (scale nearestp (1 - factor)) (scale p factor);
                      line = GCodeLine_set X (fst target) line;
                      line = GCodeLine_set Y (snd target) line;
                      modified_dist_XY = distance last_point target;
                      line = GCodeLine_set E (m_axis line E * modified_dist_XY / dist_xy) line
                  in (line, current_layer, target))
               else (line, current_layer, p))"

text \<open>What the second callback reads and writes by reference.\<close>

record rewrite_pass =
  new_gcode :: "GCodeLine list"
  transition_gcode :: "GCodeLine list"
  len :: real
  current_layer :: "SpiralPoint list"
  last_point :: SpiralPoint

definition rewrite_line ::
    "real \<Rightarrow> real \<Rightarrow> real \<Rightarrow> bool \<Rightarrow> bool \<Rightarrow> bool \<Rightarrow> SpiralPoint list option
      \<Rightarrow> GCodeLine \<Rightarrow> rewrite_pass \<Rightarrow> rewrite_pass" where
  "rewrite_line z total_layer_length layer_height transition_in transition_out smooth_spiral
       previous_layer line st =
     (if cmd line = ''G1'' \<and> m_mask line Z then
        st\<lparr>new_gcode := new_gcode st @ [GCodeLine_set Z z line]\<rparr>
      else if cmd line = ''G1'' \<and> 0 < dist_XY line then
        (if extruding line then
           (let len1 = len st + dist_XY line;
                factor = len1 / total_layer_length;
                line1 = (if transition_in then GCodeLine_set E (m_axis line E * factor) line
                         else line);
                transition1 =
                  (if \<not> transition_in \<and> transition_out then
                     transition_gcode st @ [GCodeLine_set E (m_axis line E * (1 - factor)) line]
                   else transition_gcode st);
                line2 = GCodeLine_set Z (z + factor * layer_height) line1;
                (line3, current1, last1) =
                  (if smooth_spiral then
                     smooth_spiral_block previous_layer factor (dist_XY line)
                       (line2, current_layer st, last_point st)
                   else (line2, current_layer st, last_point st))
            in st\<lparr>new_gcode := new_gcode st @ [line3], transition_gcode := transition1,
                  len := len1, current_layer := current1, last_point := last1\<rparr>)
         else st)
      else
        st\<lparr>new_gcode := new_gcode st @ [line],
           transition_gcode := (if transition_out then transition_gcode st @ [line]
                                else transition_gcode st)\<rparr>)"

text \<open>
  \<^verbatim>\<open>SpiralVase::process_layer\<close> on the lines of a layer. The reader's own position is
  not part of the model (it is behind the answers each line carries).
\<close>

definition process_layer :: "GCodeLine list \<Rightarrow> bool \<Rightarrow> SpiralVase \<Rightarrow> GCodeLine list \<times> SpiralVase" where
  "process_layer gcode last_layer sv =
     (if \<not> m_enabled sv then (gcode, sv)
      else
        let (total_layer_length, layer_height, z, set_z) = prescan gcode;
            z = z - layer_height;
            previous_layer = m_previous_layer sv;
            smooth_spiral = m_smooth_spiral sv;
            transition_in = (m_transition_layer sv \<and> use_relative_e_distances (m_config sv));
            transition_out = (last_layer \<and> use_relative_e_distances (m_config sv));
            last0 = (case previous_layer of
                       None \<Rightarrow> (0, 0)
                     | Some previous \<Rightarrow>
                         if 0 < length previous then previous ! (length previous - 1) else (0, 0));
            st = foldl (\<lambda>st line. rewrite_line z total_layer_length layer_height transition_in
                                     transition_out smooth_spiral previous_layer line st)
                   \<lparr>new_gcode = [], transition_gcode = [], len = 0, current_layer = [],
                    last_point = last0\<rparr> gcode
        in (new_gcode st @ transition_gcode st, sv\<lparr>m_previous_layer := Some (current_layer st)\<rparr>))"

text \<open>
  For the statements about a layer: an extruding horizontal move is a \<^verbatim>\<open>G1\<close> line
  without a Z word that moves in XY and extrudes (the lines the second callback ramps);
  the cumulative length at line \<open>i\<close> is the XY length of these moves up to and
  including line \<open>i\<close>.
\<close>

definition extruding_horizontal_move :: "GCodeLine \<Rightarrow> bool" where
  "extruding_horizontal_move line =
     (cmd line = ''G1'' \<and> \<not> m_mask line Z \<and> 0 < dist_XY line \<and> extruding line)"

definition cumulative_length :: "GCodeLine list \<Rightarrow> nat \<Rightarrow> real" where
  "cumulative_length gcode i =
     sum_list (map dist_XY (filter extruding_horizontal_move (take (Suc i) gcode)))"

text \<open>
  The rewriting of a layer without XY smoothing, as the specification words it, line by
  line: what line \<open>i\<close> of the layer becomes, from the start height \<open>z0\<close>, the total
  length \<open>L\<close> and the layer height \<open>H\<close>. A \<^verbatim>\<open>G1\<close> line with a Z word is replaced by
  the move to \<open>z0\<close>; an extruding horizontal move gets the Z of the ramp at its cumulative
  length (and, in the transition-in layer, its extrusion scaled by the same factor);
  the other horizontal \<^verbatim>\<open>G1\<close> moves are dropped; every other line is kept.
\<close>

definition spec_rewritten_line ::
    "real \<Rightarrow> real \<Rightarrow> real \<Rightarrow> bool \<Rightarrow> GCodeLine list \<Rightarrow> nat \<Rightarrow> GCodeLine list" where
  "spec_rewritten_line z0 L H transition_in gcode i =
     (let line = gcode ! i;
          factor = cumulative_length gcode i / L
      in if cmd line = ''G1'' \<and> m_mask line Z then [GCodeLine_set Z z0 line]
         else if extruding_horizontal_move line then
           [GCodeLine_set Z (z0 + factor * H)
              (if transition_in then GCodeLine_set E (m_axis line E * factor) line else line)]
         else if cmd line = ''G1'' \<and> 0 < dist_XY line then []
         else [line])"

subsection \<open>Calls of the writer as a step function\<close>

text \<open>
  One call of a method of the writer that assigns the position, the lift, the extruder
  selection or the bed temperature. The methods of \<^verbatim>\<open>GCodeWriter.cpp\<close> left out
  (\<^verbatim>\<open>apply_print_config\<close>, \<^verbatim>\<open>preamble\<close>, \<^verbatim>\<open>set_acceleration\<close>, \<^verbatim>\<open>set_jerk_xy\<close>,
  \<^verbatim>\<open>set_speed\<close>, \<^verbatim>\<open>retract\<close>, \<^verbatim>\<open>retract_for_toolchange\<close>, \<^verbatim>\<open>unretract\<close> and the
  \<^verbatim>\<open>const\<close> methods) assign neither \<open>m_lifted\<close> nor \<open>m_to_lift\<close>.
\<close>

datatype writer_call =
    Call_set_extruders "nat list"
  | Call_set_bed_temperature int bool
  | Call_reset_e bool
  | Call_toolchange nat
  | Call_travel_to_xy Vec2d string
  | Call_travel_to_xyz Vec3d string
  | Call_travel_to_z real string
  | Call_extrude_to_xy Vec2d real string bool
  | Call_extrude_arc_to_xy Vec2d Vec2d real bool string bool
  | Call_extrude_to_xyz Vec3d real string bool
  | Call_lift LiftType
  | Call_unlift

fun call :: "real \<Rightarrow> writer_call \<Rightarrow> GCodeWriter \<Rightarrow> error + gcode \<times> GCodeWriter" where
  "call EPSILON (Call_set_extruders ids) w =
     (case set_extruders ids w of Inl e \<Rightarrow> Inl e | Inr w' \<Rightarrow> Inr ([], w'))"
| "call EPSILON (Call_set_bed_temperature temperature wait) w =
     Inr (set_bed_temperature temperature wait w)"
| "call EPSILON (Call_reset_e force) w = reset_e force w"
| "call EPSILON (Call_toolchange extruder_id) w = toolchange extruder_id w"
| "call EPSILON (Call_travel_to_xy point comment) w = Inr (travel_to_xy point comment w)"
| "call EPSILON (Call_travel_to_xyz point comment) w = travel_to_xyz EPSILON point comment w"
| "call EPSILON (Call_travel_to_z z comment) w = Inr (travel_to_z EPSILON z comment w)"
| "call EPSILON (Call_extrude_to_xy point dE comment force_no_extrusion) w =
     extrude_to_xy point dE comment force_no_extrusion w"
| "call EPSILON (Call_extrude_arc_to_xy point center_offset dE is_ccw comment force_no_extrusion) w =
     extrude_arc_to_xy point center_offset dE is_ccw comment force_no_extrusion w"
| "call EPSILON (Call_extrude_to_xyz point dE comment force_no_extrusion) w =
     extrude_to_xyz point dE comment force_no_extrusion w"
| "call EPSILON (Call_lift lift_type) w = lift lift_type w"
| "call EPSILON Call_unlift w = Inr (unlift w)"

text \<open>At most one of the applied lift and the pending lift request is non-trivial.\<close>

definition lift_invariant :: "GCodeWriter \<Rightarrow> bool" where
  "lift_invariant w = (\<not> (0 < m_lifted w \<and> m_to_lift w \<noteq> 0))"

text \<open>
  A writer for the concrete instances below: one extruder with id 0 selected, a Z hop
  of 0.4, the nozzle at (10, 20, 1), no lift.
\<close>

definition example_config :: GCodeConfig where
  "example_config =
     \<lparr>gcode_flavor = gcfMarlinFirmware, use_relative_e_distances = False,
      travel_speed = 120, travel_speed_z = 0, z_hop = (\<lambda>i. 4 / 10)\<rparr>"

definition example_writer :: GCodeWriter where
  "example_writer =
     \<lparr>config = example_config, multiple_extruders = False,
      m_extruders = [Extruder_new 0], m_extruder = Some 0, m_is_bbl_printers = False,
      m_last_bed_temperature = 0, m_last_bed_temperature_reached = True,
      m_lifted = 0, m_to_lift = 0, m_to_lift_type = NormalLift,
      m_pos = (10, 20, 1), m_x_offset = 0, m_y_offset = 0,
      m_is_current_pos_clear = True\<rparr>"

text \<open>
  A layer for the examples of the spiral vase: the Z move from 1/4 up to 1/2, then two
  extruding moves of XY length 10 and 30.
\<close>

definition example_line :: "real \<Rightarrow> real \<Rightarrow> real \<Rightarrow> real \<Rightarrow> GCodeLine" where
  "example_line px py pe d =
     \<lparr>cmd = ''G1'', m_axis = (\<lambda>a. 0)(X := px, Y := py, E := pe),
      m_mask = (\<lambda>a. False)(X := True, Y := True, E := True),
      extruding = True, dist_XY = d, dist_Z = 0, new_Z = 0\<rparr>"

definition example_z_move :: GCodeLine where
  "example_z_move =
     \<lparr>cmd = ''G1'', m_axis = (\<lambda>a. 0)(Z := 1 / 2), m_mask = (\<lambda>a. False)(Z := True),
      extruding = False, dist_XY = 0, dist_Z = 1 / 4, new_Z = 1 / 2\<rparr>"

definition example_vase :: SpiralVase where
  "example_vase =
     \<lparr>m_enabled = True, m_smooth_spiral = False, m_transition_layer = False,
      m_config = example_config, m_previous_layer = None\<rparr>"

definition example_layer :: "GCodeLine list" where
  "example_layer = [example_z_move, example_line 10 0 1 10, example_line 10 30 3 30]"


section \<open>Properties\<close>

subsection \<open>The numeric formatter\<close>

lemma emit_axis_digits_stages:
  "emit_axis_digits v_int digits =
     strip_stage (point_stage (pad_stage v_int digits) digits) digits
       (int (length (pad_stage v_int digits)))"
  unfolding emit_axis_digits_def pad_stage_def point_stage_def strip_stage_def Let_def
  by (rule refl)

lemma digit_char_is_digit: "k < 10 \<Longrightarrow> is_digit (''0123456789'' ! k)"
  unfolding is_digit_def by (rule nth_mem) simp

lemma dec_digits_digits: "c \<in> set (dec_digits n) \<Longrightarrow> is_digit c"
proof (induction n rule: dec_digits.induct)
  case (1 n)
  show ?case
  proof (cases "n < 10")
    case True
    with "1.prems" show ?thesis
      by (simp add: dec_digits.simps [of n] digit_char_is_digit)
  next
    case False
    with "1.prems" "1.IH" show ?thesis
      by (auto simp: dec_digits.simps [of n] digit_char_is_digit)
  qed
qed

lemma dec_digits_nonempty: "dec_digits n \<noteq> []"
  by (subst dec_digits.simps) simp

lemma frac_digits_length [simp]: "length (frac_digits d r) = d"
  by (induction d arbitrary: r) simp_all

lemma frac_digits_digits: "c \<in> set (frac_digits d r) \<Longrightarrow> is_digit c"
  by (induction d arbitrary: r) (auto simp: digit_char_is_digit)

lemma frac_digits_zero: "frac_digits d 0 = replicate d CHR ''0''"
  by (induction d) (simp_all add: replicate_append_same)

text \<open>The padded digits split into the integer part and the d fraction digits.\<close>

lemma padded_split:
  "0 < d \<Longrightarrow>
   replicate (d - length (dec_digits a)) CHR ''0'' @ dec_digits a
     = (if a div 10 ^ d = 0 then [] else dec_digits (a div 10 ^ d)) @ frac_digits d (a mod 10 ^ d)"
proof (induction d arbitrary: a)
  case 0
  then show ?case by simp
next
  case (Suc d)
  show ?case
  proof (cases "a < 10")
    case True
    then have "a div 10 ^ Suc d = 0" "a mod 10 ^ Suc d = a"
      by (simp_all add: div_eq_0_iff  order_less_le_trans [of a 10 "10 * 10 ^ d"])
    with True show ?thesis
      by (simp add: dec_digits.simps [of a] frac_digits_zero)
  next
    case ge: False
    let ?a' = "a div 10"
    have dec: "dec_digits a = dec_digits ?a' @ [''0123456789'' ! (a mod 10)]"
      using ge by (subst dec_digits.simps) simp
    have q: "a div (10 * 10 ^ d) = ?a' div 10 ^ d"
      by (simp add: div_mult2_eq)
    have r1: "a mod (10 * 10 ^ d) div 10 = ?a' mod 10 ^ d"
      by (simp add: mod_mult2_eq)
    have r2: "a mod (10 * 10 ^ d) mod 10 = a mod 10"
      by (simp add: mod_mod_cancel)
    show ?thesis
    proof (cases "d = 0")
      case True
      show ?thesis
      proof -
        from ge have "?a' \<noteq> 0" by (simp add: div_eq_0_iff)
        with True dec dec_digits_nonempty [of ?a'] show ?thesis by simp
      qed
    next
      case False
      then have "0 < d" by simp
      have "replicate (Suc d - length (dec_digits a)) CHR ''0'' @ dec_digits a
          = (replicate (d - length (dec_digits ?a')) CHR ''0'' @ dec_digits ?a')
            @ [''0123456789'' ! (a mod 10)]"
        by (simp add: dec)
      also have "\<dots> = ((if ?a' div 10 ^ d = 0 then [] else dec_digits (?a' div 10 ^ d))
                       @ frac_digits d (?a' mod 10 ^ d)) @ [''0123456789'' ! (a mod 10)]"
        by (simp only: Suc.IH [OF \<open>0 < d\<close>, of ?a'])
      also have "\<dots> = (if a div 10 ^ Suc d = 0 then [] else dec_digits (a div 10 ^ Suc d))
                       @ frac_digits (Suc d) (a mod 10 ^ Suc d)"
        by (simp add: q r1 r2)
      finally show ?thesis .
    qed
  qed
qed


lemma strip_zeros_snoc:
  "strip_zeros (F @ [c]) = (if c = CHR ''0'' then strip_zeros F else F @ [c])"
  by (simp add: strip_zeros_def)

lemma strip_zeros_Nil [simp]: "strip_zeros [] = []"
  by (simp add: strip_zeros_def)

lemma strip_zeros_prefix: "\<exists>k. F = strip_zeros F @ replicate k CHR ''0''"
proof (induction F rule: rev_induct)
  case Nil
  then show ?case by simp
next
  case (snoc c F)
  then obtain k where k: "F = strip_zeros F @ replicate k CHR ''0''" by blast
  show ?case
  proof (cases "c = CHR ''0''")
    case True
    have "F @ [c] = strip_zeros F @ replicate (Suc k) CHR ''0''"
      using k True by (metis append_assoc replicate_append_same replicate_Suc)
    moreover have "strip_zeros (F @ [c]) = strip_zeros F"
      using True by (simp add: strip_zeros_snoc)
    ultimately show ?thesis by metis
  next
    case False
    then have "F @ [c] = strip_zeros (F @ [c]) @ replicate 0 CHR ''0''"
      by (simp add: strip_zeros_snoc)
    then show ?thesis by blast
  qed
qed

lemma strip_zeros_last: "strip_zeros F \<noteq> [] \<Longrightarrow> last (strip_zeros F) \<noteq> CHR ''0''"
  by (induction F rule: rev_induct) (auto simp: strip_zeros_snoc)

lemma strip_zeros_subset: "set (strip_zeros F) \<subseteq> set F"
  by (induction F rule: rev_induct) (auto simp: strip_zeros_snoc)

lemma strip_zeros_length: "length (strip_zeros F) \<le> length F"
  by (induction F rule: rev_induct) (auto simp: strip_zeros_snoc)

lemma skip_zeros_strip:
  "skip_zeros (length F) (P @ F @ S) (int (length P + length F) - 1)
     = int (length P + length (strip_zeros F)) - 1"
proof (induction F arbitrary: S rule: rev_induct)
  case Nil
  then show ?case by simp
next
  case (snoc c F)
  have nth: "(P @ (F @ [c]) @ S) ! (length P + length F) = c"
    by (simp add: nth_append)
  show ?case
  proof (cases "c = CHR ''0''")
    case True
    have "skip_zeros (length (F @ [c])) (P @ (F @ [c]) @ S) (int (length P + length (F @ [c])) - 1)
        = skip_zeros (length F) (P @ F @ ([c] @ S)) (int (length P + length F) - 1)"
      using nth True by (simp add: nat_add_distrib)
    also have "\<dots> = int (length P + length (strip_zeros F)) - 1"
      by (rule snoc.IH)
    finally show ?thesis using True by (simp add: strip_zeros_snoc)
  next
    case False
    with nth show ?thesis
      by (simp add: strip_zeros_snoc nat_add_distrib)
  qed
qed

lemma is_digit_not_special: "is_digit c \<Longrightarrow> c \<noteq> CHR ''.'' \<and> c \<noteq> CHR ''-''"
  by (auto simp: is_digit_def)

lemma nth_after_point:
  "S \<noteq> [] \<Longrightarrow> (P @ c # S @ T) ! (length P + length S) = last S"
  by (simp add: nth_append last_conv_nth nth_Cons')

lemma take_after_point:
  "take (Suc (length P + length S)) (P @ c # S @ T) = P @ c # S"
  by simp

lemma strip_stage_eq:
  assumes digs: "\<forall>c \<in> set F. is_digit c"
    and P: "strip_zeros F = [] \<Longrightarrow> P \<noteq> [] \<Longrightarrow> last P \<noteq> CHR ''-''"
  shows "strip_stage (P @ CHR ''.'' # F) (length F) (int (length P + length F))
         = P @ (if strip_zeros F = [] then (if P = [] then ''0'' else [])
                else CHR ''.'' # strip_zeros F)"
proof -
  let ?B = "P @ CHR ''.'' # F"
  let ?k = "length (strip_zeros F)"
  have skip: "skip_zeros (length F) ?B (int (length P + length F)) = int (length P + ?k)"
    using skip_zeros_strip [of F "P @ [CHR ''.'']" "[]"] by simp
  obtain j where F: "F = strip_zeros F @ replicate j CHR ''0''"
    using strip_zeros_prefix by blast
  show ?thesis
  proof (cases "strip_zeros F = []")
    case True
    then have at: "?B ! nat (int (length P + ?k)) = CHR ''.''"
      by (simp add: nth_append)
    show ?thesis
    proof (cases "P = []")
      case True
      with \<open>strip_zeros F = []\<close> show ?thesis
        unfolding strip_stage_def Let_def skip by simp
    next
      case False
      with P [OF \<open>strip_zeros F = []\<close>] have l: "last P \<noteq> CHR ''-''" by simp
      have n: "nat (int (length P) - 1) = length P - 1"
        by simp
      have "length P - 1 < length P"
        using False by simp
      then have "?B ! nat (int (length P) - 1) = last P"
        using False unfolding n by (simp add: nth_append last_conv_nth)
      with l False \<open>strip_zeros F = []\<close> show ?thesis
        unfolding strip_stage_def Let_def skip by (simp add: nth_append)
    qed
  next
    case False
    then have k: "0 < ?k" by simp
    have idx: "nat (int (length P + ?k)) = length P + ?k" by simp
    have B: "?B ! (length P + ?k) = last (strip_zeros F)"
      "take (Suc (length P + ?k)) ?B = P @ CHR ''.'' # strip_zeros F"
      using nth_after_point [OF False, of P "CHR ''.''" "replicate j CHR ''0''"]
        take_after_point [of P "strip_zeros F" "CHR ''.''" "replicate j CHR ''0''"]
        F by metis+
    have "last (strip_zeros F) \<in> set F"
      using False strip_zeros_subset [of F] last_in_set by blast
    with digs have "is_digit (last (strip_zeros F))" by blast
    then have ne: "last (strip_zeros F) \<noteq> CHR ''.''" "last (strip_zeros F) \<noteq> CHR ''-''"
      using is_digit_not_special by blast+
    show ?thesis
      unfolding strip_stage_def Let_def skip idx
      using False ne B
      by (simp add: nat_add_distrib)
  qed
qed


lemma to_chars_sign: "to_chars n = sign_text n @ dec_digits (nat \<bar>n\<bar>)"
  by (simp add: to_chars_def sign_text_def)

lemma pad_stage_eq:
  "pad_stage n d
     = sign_text n @ replicate (d - length (dec_digits (nat \<bar>n\<bar>))) CHR ''0'' @ dec_digits (nat \<bar>n\<bar>)"
  by (simp add: pad_stage_def to_chars_sign sign_text_def Let_def)

lemma point_stage_eq:
  "length F = d \<Longrightarrow> point_stage (S @ I @ F) d = (S @ I) @ CHR ''.'' # F"
  by (simp add: point_stage_def)

text \<open>The values of digit strings.\<close>

lemma digit_value_digit: "k < 10 \<Longrightarrow> digit_value (''0123456789'' ! k) = k"
proof -
  assume "k < 10"
  then have "k = 0 \<or> k = 1 \<or> k = 2 \<or> k = 3 \<or> k = 4 \<or> k = 5 \<or> k = 6
    \<or> k = 7 \<or> k = 8 \<or> k = 9"
    by arith
  then show ?thesis
    by (elim disjE) (simp_all add: digit_value_def)
qed

lemma digits_value_snoc: "digits_value (s @ [c]) = 10 * digits_value s + digit_value c"
  by (simp add: digits_value_def)

lemma digits_value_Nil [simp]: "digits_value [] = 0"
  by (simp add: digits_value_def)

lemma digits_value_dec_digits: "digits_value (dec_digits n) = n"
proof (induction n rule: dec_digits.induct)
  case (1 n)
  show ?case
  proof (cases "n < 10")
    case True
    then show ?thesis
      using digits_value_snoc [of "[]"]
      by (simp add: dec_digits.simps [of n] digit_value_digit)
  next
    case False
    with "1.IH" show ?thesis
      by (simp add: dec_digits.simps [of n] digits_value_snoc digit_value_digit)
  qed
qed

lemma digits_value_frac_digits: "digits_value (frac_digits d r) = r mod 10 ^ d"
proof (induction d arbitrary: r)
  case 0
  then show ?case by simp
next
  case (Suc d)
  have "r mod (10 * 10 ^ d) = 10 * (r div 10 mod 10 ^ d) + r mod 10"
    by (simp add: mod_mult2_eq)
  with Suc show ?case
    by (simp add: digits_value_snoc digit_value_digit)
qed

lemma digits_value_zeros: "digits_value (s @ replicate k CHR ''0'') = digits_value s * 10 ^ k"
proof (induction k)
  case 0
  then show ?case by simp
next
  case (Suc k)
  have "s @ replicate (Suc k) CHR ''0'' = (s @ replicate k CHR ''0'') @ [CHR ''0'']"
    by (simp add: replicate_append_same)
  with Suc show ?case
    by (simp only: digits_value_snoc) (simp add: digit_value_def)
qed

lemma strip_zeros_value:
  "real (digits_value (strip_zeros F)) / 10 ^ length (strip_zeros F)
     = real (digits_value F) / 10 ^ length F"
proof -
  obtain k where F: "F = strip_zeros F @ replicate k CHR ''0''"
    using strip_zeros_prefix by blast
  have "digits_value F = digits_value (strip_zeros F) * 10 ^ k"
    using digits_value_zeros [of "strip_zeros F" k] F by simp
  moreover have "length F = length (strip_zeros F) + k"
    using F by (metis length_append length_replicate)
  ultimately show ?thesis
    by (simp add: power_add)
qed

lemma strip_zeros_frac_empty:
  "r < 10 ^ d \<Longrightarrow> (strip_zeros (frac_digits d r) = []) = (r = 0)"
proof
  assume r: "r < 10 ^ d" and e: "strip_zeros (frac_digits d r) = []"
  from strip_zeros_value [of "frac_digits d r"] e
  have "real (digits_value (frac_digits d r)) = 0" by simp
  with r show "r = 0" by (simp add: digits_value_frac_digits)
next
  assume "r = 0"
  then show "strip_zeros (frac_digits d r) = []"
    by (simp add: frac_digits_zero strip_zeros_def)
qed

text \<open>The text of emit_axis is the shortest fixed-point text.\<close>

lemma emit_axis_digits_shortest: "emit_axis_digits n d = shortest_fixed n d"
proof (cases "d = 0")
  case True
  let ?a = "nat \<bar>n\<bar>"
  have "point_stage (sign_text n @ dec_digits ?a @ []) 0 = (sign_text n @ dec_digits ?a) @ CHR ''.'' # []"
    by (rule point_stage_eq) simp
  moreover have "strip_stage ((sign_text n @ dec_digits ?a) @ CHR ''.'' # []) (length ([] :: string))
        (int (length (sign_text n @ dec_digits ?a) + length ([] :: string)))
      = (sign_text n @ dec_digits ?a) @ (if strip_zeros [] = [] then
            (if sign_text n @ dec_digits ?a = [] then ''0'' else []) else CHR ''.'' # strip_zeros [])"
  proof (rule strip_stage_eq)
    show "\<forall>c\<in>set ([] :: string). is_digit c" by simp
    have "is_digit (last (dec_digits ?a))"
      using dec_digits_digits [of _ ?a] dec_digits_nonempty [of ?a] last_in_set by blast
    then show "last (sign_text n @ dec_digits ?a) \<noteq> CHR ''-''"
      using dec_digits_nonempty [of ?a] is_digit_not_special by simp
  qed
  ultimately have "emit_axis_digits n 0 = sign_text n @ dec_digits ?a"
    using dec_digits_nonempty [of ?a]
    by (simp add: emit_axis_digits_stages pad_stage_eq)
  moreover have "dec_digits 0 = ''0''" by (simp add: dec_digits.simps)
  ultimately show ?thesis
    using True by (auto simp: shortest_fixed_def sign_text_def Let_def)
next
  case False
  then have d: "0 < d" by simp
  let ?a = "nat \<bar>n\<bar>"
  let ?q = "?a div 10 ^ d"
  let ?r = "?a mod 10 ^ d"
  let ?I = "if ?q = 0 then [] else dec_digits ?q"
  let ?F = "frac_digits d ?r"
  let ?P = "sign_text n @ ?I"
  have pad: "pad_stage n d = sign_text n @ ?I @ ?F"
    using padded_split [OF d, of ?a] by (simp add: pad_stage_eq)
  have point: "point_stage (pad_stage n d) d = ?P @ CHR ''.'' # ?F"
    unfolding pad by (rule point_stage_eq) simp
  have len: "int (length (pad_stage n d)) = int (length ?P + length ?F)"
    unfolding pad by simp
  have r: "?r < 10 ^ d" by simp
  have strip: "strip_stage (?P @ CHR ''.'' # ?F) (length ?F) (int (length ?P + length ?F))
      = ?P @ (if strip_zeros ?F = [] then (if ?P = [] then ''0'' else [])
              else CHR ''.'' # strip_zeros ?F)"
  proof (rule strip_stage_eq)
    show "\<forall>c\<in>set ?F. is_digit c"
      using frac_digits_digits by blast
    assume e: "strip_zeros ?F = []" and ne: "?P \<noteq> []"
    from e r have r0: "?r = 0" by (simp only: strip_zeros_frac_empty)
    have "?q \<noteq> 0"
    proof
      assume "?q = 0"
      with r0 have "?a = 0" by (metis div_mult_mod_eq mult_zero_left add.right_neutral)
      then have "n = 0" by simp
      with \<open>?q = 0\<close> ne show False by (simp add: sign_text_def)
    qed
    then have "last ?P = last (dec_digits ?q)"
      using dec_digits_nonempty [of ?q] by simp
    moreover have "is_digit (last (dec_digits ?q))"
      using dec_digits_digits [of _ ?q] dec_digits_nonempty [of ?q] last_in_set by blast
    ultimately show "last ?P \<noteq> CHR ''-''"
      using is_digit_not_special by metis
  qed
  have e: "emit_axis_digits n d
      = ?P @ (if strip_zeros ?F = [] then (if ?P = [] then ''0'' else [])
              else CHR ''.'' # strip_zeros ?F)"
    unfolding emit_axis_digits_stages point len using strip by simp
  have se: "(strip_zeros ?F = []) = (?r = 0)"
    using r by (rule strip_zeros_frac_empty)
  have pe: "?r = 0 \<Longrightarrow> (?P = []) = (?q = 0)"
  proof -
    assume r0: "?r = 0"
    show "(?P = []) = (?q = 0)"
    proof (cases "?q = 0")
      case True
      with r0 have "?a = 0" by (metis div_mult_mod_eq mult_zero_left add.right_neutral)
      then have "n = 0" by simp
      with True show ?thesis by (simp add: sign_text_def)
    next
      case False
      then show ?thesis using dec_digits_nonempty [of ?q] by simp
    qed
  qed
  show ?thesis
    unfolding e se shortest_fixed_def Let_def
    using pe by (auto simp: sign_text_def)
qed


text \<open>Properties of the shortest fixed-point text.\<close>

lemma dec_digits_hd: "is_digit (hd (dec_digits n))"
  using dec_digits_digits [of _ n] dec_digits_nonempty [of n] hd_in_set by blast

lemma dec_digits_last: "is_digit (last (dec_digits n))"
  using dec_digits_digits [of _ n] dec_digits_nonempty [of n] last_in_set by blast

lemma shortest_fixed_parts:
  fixes n :: int and d :: nat
  defines "a \<equiv> nat \<bar>n\<bar>"
  defines "q \<equiv> a div 10 ^ d" and "r \<equiv> a mod 10 ^ d"
  defines "Ip \<equiv> (if q = 0 then (if r = 0 then ''0'' else []) else dec_digits q)"
  defines "Fp \<equiv> (if r = 0 then [] else strip_zeros (frac_digits d r))"
  shows "shortest_fixed n d = sign_text n @ Ip @ (if r = 0 then [] else CHR ''.'' # Fp)"
    and "\<forall>c \<in> set Ip. is_digit c"
    and "\<forall>c \<in> set Fp. is_digit c"
    and "r \<noteq> 0 \<longrightarrow> Fp \<noteq> [] \<and> last Fp \<noteq> CHR ''0''"
    and "real (digits_value Ip) + real (digits_value Fp) / 10 ^ length Fp = real a / 10 ^ d"
    and "(Ip = []) = (0 < \<bar>n\<bar> \<and> \<bar>n\<bar> < 10 ^ d)"
proof -
  show "shortest_fixed n d = sign_text n @ Ip @ (if r = 0 then [] else CHR ''.'' # Fp)"
    by (simp add: shortest_fixed_def sign_text_def Let_def a_def q_def r_def Ip_def Fp_def)
  have zero: "is_digit CHR ''0''" by (simp add: is_digit_def)
  show "\<forall>c \<in> set Ip. is_digit c"
    using dec_digits_digits zero by (auto simp: Ip_def)
  show "\<forall>c \<in> set Fp. is_digit c"
    using frac_digits_digits [of _ d r] strip_zeros_subset [of "frac_digits d r"]
    by (auto simp: Fp_def)
  have rlt: "r < 10 ^ d" by (simp add: r_def)
  show "r \<noteq> 0 \<longrightarrow> Fp \<noteq> [] \<and> last Fp \<noteq> CHR ''0''"
    using strip_zeros_frac_empty [OF rlt] strip_zeros_last [of "frac_digits d r"]
    by (auto simp: Fp_def)
  have ip: "digits_value Ip = q"
    using digits_value_snoc [of "[]" "CHR ''0''"]
    by (simp add: Ip_def digits_value_dec_digits digit_value_def)
  have fp: "real (digits_value Fp) / 10 ^ length Fp = real r / 10 ^ d"
  proof (cases "r = 0")
    case True
    then show ?thesis by (simp add: Fp_def)
  next
    case False
    then have "real (digits_value Fp) / 10 ^ length Fp
        = real (digits_value (frac_digits d r)) / 10 ^ length (frac_digits d r)"
      by (simp add: Fp_def strip_zeros_value)
    also have "\<dots> = real r / 10 ^ d"
      using rlt by (simp add: digits_value_frac_digits)
    finally show ?thesis .
  qed
  have "a = q * 10 ^ d + r"
    unfolding q_def r_def by (rule div_mult_mod_eq [symmetric])
  then have "real a = real (q * 10 ^ d + r)"
    by (rule arg_cong)
  then have ra: "real a = real q * 10 ^ d + real r"
    by simp
  show "real (digits_value Ip) + real (digits_value Fp) / 10 ^ length Fp = real a / 10 ^ d"
    unfolding ip fp ra by (simp add: add_divide_distrib)
  have e1: "(Ip = []) = (q = 0 \<and> r \<noteq> 0)"
    using dec_digits_nonempty [of q] by (simp add: Ip_def)
  have e2: "(q = 0 \<and> r \<noteq> 0) = (0 < a \<and> a < 10 ^ d)"
  proof (cases "a < 10 ^ d")
    case True
    then show ?thesis by (simp add: q_def r_def)
  next
    case False
    then have "q \<noteq> 0" by (simp add: q_def div_eq_0_iff)
    with False show ?thesis by simp
  qed
  have e3: "(0 < a \<and> a < 10 ^ d) = (0 < \<bar>n\<bar> \<and> \<bar>n\<bar> < 10 ^ d)"
  proof -
    have "int a = \<bar>n\<bar>" by (simp add: a_def)
    then have "(a < 10 ^ d) = (\<bar>n\<bar> < 10 ^ d)" "(0 < a) = (0 < \<bar>n\<bar>)"
      by (metis of_nat_less_iff of_nat_numeral of_nat_power, metis of_nat_0_less_iff)
    then show ?thesis by simp
  qed
  show "(Ip = []) = (0 < \<bar>n\<bar> \<and> \<bar>n\<bar> < 10 ^ d)"
    unfolding e1 e2 e3 ..
qed

lemma shortest_fixed_value: "token_value (shortest_fixed n d) = real_of_int n / 10 ^ d"
proof -
  define a where "a = nat \<bar>n\<bar>"
  define q where "q = a div 10 ^ d"
  define r where "r = a mod 10 ^ d"
  define Ip where "Ip = (if q = 0 then (if r = 0 then ''0'' else []) else dec_digits q)"
  define Fp where "Fp = (if r = 0 then [] else strip_zeros (frac_digits d r))"
  define body where "body = Ip @ (if r = 0 then [] else CHR ''.'' # Fp)"
  note parts = shortest_fixed_parts [of n d, folded a_def, folded q_def r_def, folded Ip_def Fp_def]
  have tok: "shortest_fixed n d = sign_text n @ body"
    using parts(1) by (simp add: body_def)
  have ipd: "\<forall>c \<in> set Ip. c \<noteq> CHR ''.'' \<and> c \<noteq> CHR ''-''"
    using parts(2) is_digit_not_special by blast
  have r0: "r = 0 \<Longrightarrow> Ip \<noteq> []"
    by (auto simp: Ip_def dec_digits_nonempty)
  have body_ne: "body \<noteq> []"
    using r0 by (auto simp: body_def)
  have hd_body: "hd body \<noteq> CHR ''-''"
  proof (cases "Ip = []")
    case True
    with r0 have "r \<noteq> 0" by blast
    with True show ?thesis by (simp add: body_def)
  next
    case False
    then have "hd body = hd Ip" by (simp add: body_def)
    with False ipd show ?thesis by (metis hd_in_set)
  qed
  have tw: "takeWhile (\<lambda>c. c \<noteq> CHR ''.'') body = Ip"
    using ipd by (simp add: body_def takeWhile_append2)
  have dr: "drop (Suc (length Ip)) body = Fp"
    using parts(4) by (auto simp: body_def Fp_def)
  have ln: "length body - Suc (length Ip) = length Fp"
    using dr by (metis length_drop)
  have v: "real (digits_value Ip) + real (digits_value Fp) / 10 ^ length Fp = real a / 10 ^ d"
    by (rule parts(5))
  show ?thesis
  proof (cases "n < 0")
    case True
    then have "token_value (shortest_fixed n d)
        = - (real (digits_value Ip) + real (digits_value Fp) / 10 ^ length Fp)"
      unfolding tok token_value_def Let_def
      by (simp add: sign_text_def tw dr ln)
    also have "\<dots> = real_of_int n / 10 ^ d"
      using True by (simp add: v a_def)
    finally show ?thesis .
  next
    case False
    then have "token_value (shortest_fixed n d)
        = real (digits_value Ip) + real (digits_value Fp) / 10 ^ length Fp"
      unfolding tok token_value_def Let_def
      using body_ne hd_body by (simp add: sign_text_def tw dr ln)
    also have "\<dots> = real_of_int n / 10 ^ d"
      using False by (simp add: v a_def)
    finally show ?thesis .
  qed
qed

lemma shortest_fixed_shape:
  "shortest_fixed n d \<noteq> []
   \<and> last (shortest_fixed n d) \<noteq> CHR ''.''
   \<and> (CHR ''.'' \<in> set (shortest_fixed n d) \<longrightarrow> last (shortest_fixed n d) \<noteq> CHR ''0'')
   \<and> ((hd (shortest_fixed n d) = CHR ''-'') = (n < 0))
   \<and> ((hd (drop (length (sign_text n)) (shortest_fixed n d)) = CHR ''.'')
        = (0 < \<bar>n\<bar> \<and> \<bar>n\<bar> < 10 ^ d))"
proof -
  define a where "a = nat \<bar>n\<bar>"
  define q where "q = a div 10 ^ d"
  define r where "r = a mod 10 ^ d"
  define Ip where "Ip = (if q = 0 then (if r = 0 then ''0'' else []) else dec_digits q)"
  define Fp where "Fp = (if r = 0 then [] else strip_zeros (frac_digits d r))"
  define body where "body = Ip @ (if r = 0 then [] else CHR ''.'' # Fp)"
  note parts = shortest_fixed_parts [of n d, folded a_def, folded q_def r_def, folded Ip_def Fp_def]
  have tok: "shortest_fixed n d = sign_text n @ body"
    using parts(1) by (simp add: body_def)
  have ipd: "\<forall>c \<in> set Ip. c \<noteq> CHR ''.'' \<and> c \<noteq> CHR ''-''"
    using parts(2) is_digit_not_special by blast
  have fpd: "\<forall>c \<in> set Fp. c \<noteq> CHR ''.'' \<and> c \<noteq> CHR ''-''"
    using parts(3) is_digit_not_special by blast
  have r0: "r = 0 \<Longrightarrow> Ip \<noteq> []"
    by (auto simp: Ip_def dec_digits_nonempty)
  have body_ne: "body \<noteq> []"
    using r0 by (auto simp: body_def)
  have hd_body: "(hd body = CHR ''.'') = (Ip = [])" "hd body \<noteq> CHR ''-''"
  proof -
    show "(hd body = CHR ''.'') = (Ip = [])"
    proof (cases "Ip = []")
      case True
      with r0 have "r \<noteq> 0" by blast
      with True show ?thesis by (simp add: body_def)
    next
      case False
      then have "hd body = hd Ip" by (simp add: body_def)
      with False ipd show ?thesis by (metis hd_in_set)
    qed
    show "hd body \<noteq> CHR ''-''"
    proof (cases "Ip = []")
      case True
      with r0 have "r \<noteq> 0" by blast
      with True show ?thesis by (simp add: body_def)
    next
      case False
      then have "hd body = hd Ip" by (simp add: body_def)
      with False ipd show ?thesis by (metis hd_in_set)
    qed
  qed
  have last_body: "last body \<noteq> CHR ''.''" "CHR ''.'' \<in> set body \<longrightarrow> last body \<noteq> CHR ''0''"
  proof -
    show "last body \<noteq> CHR ''.''"
    proof (cases "r = 0")
      case True
      with r0 have "last body = last Ip" "Ip \<noteq> []" by (simp_all add: body_def)
      with ipd show ?thesis by (metis last_in_set)
    next
      case False
      with parts(4) have "last body = last Fp" "Fp \<noteq> []" by (simp_all add: body_def)
      with fpd show ?thesis by (metis last_in_set)
    qed
    show "CHR ''.'' \<in> set body \<longrightarrow> last body \<noteq> CHR ''0''"
    proof (cases "r = 0")
      case True
      with ipd show ?thesis by (auto simp: body_def)
    next
      case False
      with parts(4) have "last body = last Fp" "last Fp \<noteq> CHR ''0''" by (simp_all add: body_def)
      then show ?thesis by simp
    qed
  qed
  have sign_no_point: "CHR ''.'' \<notin> set (sign_text n)"
    by (simp add: sign_text_def)
  show ?thesis
    unfolding tok
    using body_ne hd_body last_body parts(6) sign_no_point
    by (auto simp: sign_text_def)
qed

lemma pow_10_nth: "digits \<le> 9 \<Longrightarrow> pow_10 ! digits = 10 ^ digits"
proof -
  assume "digits \<le> 9"
  then have "digits = 0 \<or> digits = 1 \<or> digits = 2 \<or> digits = 3 \<or> digits = 4 \<or> digits = 5
    \<or> digits = 6 \<or> digits = 7 \<or> digits = 8 \<or> digits = 9"
    by arith
  then show ?thesis
    by (elim disjE) (simp_all add: pow_10_def)
qed

lemma emit_axis_eq:
  assumes "digits \<le> 9"
    and "- (2 ^ 63) \<le> std_round (dmul v (10 ^ digits))"
    and "std_round (dmul v (10 ^ digits)) < 2 ^ 63"
  shows "emit_axis dmul axis v digits buf
         = Inr (buf @ [CHR '' '', axis] @ shortest_fixed (std_round (dmul v (10 ^ digits))) digits)"
  using assms
  by (simp add: emit_axis_def pow_10_nth emit_axis_digits_shortest Let_def)

text \<open>
  Claim C1, as amended. For every digit count up to 9 and every value whose scaled
  product \<open>dmul v (10 ^ digits)\<close>, rounded half away from zero, fits \<^verbatim>\<open>int64_t\<close>,
  \<open>emit_axis\<close> appends a space, the axis letter and a token that denotes exactly that
  rounded integer \<open>n\<close> divided by \<open>10 ^ digits\<close> (so \<open>v\<close> rounded half away from zero
  at \<open>digits\<close> decimals when the product is exact). The token is not empty, does not
  end with a point, has no trailing zero after a point, and starts with a minus sign
  exactly when \<open>n\<close> is negative. It has no digit before the point when
  \<open>0 < \<bar>n\<bar> < 10 ^ digits\<close>: the point then comes first (after the sign).
\<close>

theorem emit_axis_shortest_fixed:
  fixes dmul :: "real \<Rightarrow> real \<Rightarrow> real" and v :: real and digits :: nat
  defines "n \<equiv> std_round (dmul v (10 ^ digits))"
  assumes "digits \<le> 9" and "- (2 ^ 63) \<le> n" and "n < 2 ^ 63"
  shows "emit_axis dmul axis v digits buf = Inr (buf @ [CHR '' '', axis] @ shortest_fixed n digits)
    \<and> token_value (shortest_fixed n digits) = real_of_int n / 10 ^ digits
    \<and> shortest_fixed n digits \<noteq> []
    \<and> last (shortest_fixed n digits) \<noteq> CHR ''.''
    \<and> (CHR ''.'' \<in> set (shortest_fixed n digits) \<longrightarrow> last (shortest_fixed n digits) \<noteq> CHR ''0'')
    \<and> ((hd (shortest_fixed n digits) = CHR ''-'') = (n < 0))
    \<and> ((hd (drop (length (sign_text n)) (shortest_fixed n digits)) = CHR ''.'')
         = (0 < \<bar>n\<bar> \<and> \<bar>n\<bar> < 10 ^ digits))"
  using assms emit_axis_eq [of digits dmul v axis buf] shortest_fixed_value [of n digits]
    shortest_fixed_shape [of n digits]
  by simp

theorem emit_axis_shortest_fixed_witness:
  "(2 :: nat) \<le> 9
   \<and> emit_axis (*) CHR ''X'' (- 12355 / 1000) 2 ''G1'' = Inr ''G1 X-12.36''
   \<and> token_value ''-12.36'' = - 1236 / 100
   \<and> emit_axis (*) CHR ''Y'' (5 / 2) 2 ''G1'' = Inr ''G1 Y2.5''"
proof -
  have r: "std_round ((- 12355 / 1000) * 10 ^ 2) = - 1236" "std_round ((5 / 2) * 10 ^ 2) = 250"
    by (simp_all add: std_round_def)
  have s: "shortest_fixed (- 1236) 2 = ''-12.36''" "shortest_fixed 250 2 = ''2.5''"
    by (simp_all add: shortest_fixed_def strip_zeros_def dec_digits.simps numeral_2_eq_2)
  from emit_axis_shortest_fixed [of 2 "(*)" "- 12355 / 1000" "CHR ''X''" "''G1''"]
    emit_axis_shortest_fixed [of 2 "(*)" "5 / 2" "CHR ''Y''" "''G1''"]
  show ?thesis
    unfolding r s by simp
qed

text \<open>
  The claim as stated fails: 0.5 at one decimal is rendered \<open>.5\<close>, with no digit before
  the point (the product 0.5 * 10 is exact in doubles).
\<close>

theorem emit_axis_no_leading_zero_counterexample:
  "emit_axis (*) CHR ''X'' (1 / 2) 1 [] = Inr '' X.5''"
proof -
  have r: "std_round ((1 / 2) * 10 ^ 1) = 5"
    by (simp add: std_round_def)
  have "shortest_fixed 5 1 = ''.5''"
    by (simp add: shortest_fixed_def strip_zeros_def)
  with emit_axis_eq [of 1 "(*)" "1 / 2" "CHR ''X''" "[]"] r show ?thesis
    by simp
qed

subsection \<open>Bed temperature\<close>

text \<open>
  Claim C5. A call emits nothing exactly when the temperature is the stored one and
  the call does not wait or the stored command waited; a call that emits stores its
  temperature and its wait flag, so the stored pair is the last issued command. Hence
  a call that repeats the last issued command (same temperature, same wait flag)
  returns the empty string and leaves the writer as it is, and after an issued command
  \<open>(t0, b0)\<close> a call \<open>(t, b)\<close> is empty exactly when \<open>t = t0\<close> and \<open>b\<close> implies \<open>b0\<close>.
  Two calls with (60, no wait) emit \<^verbatim>\<open>M140 S60\<close> once, unless 60 was already the stored
  temperature (then neither emits), and the second never emits; the third call with
  (60, wait) emits \<^verbatim>\<open>M190 S60\<close>, unless 60 was stored with a wait before the three calls.
\<close>

theorem set_bed_temperature_dedup:
  "(temperature = m_last_bed_temperature w \<and> wait = m_last_bed_temperature_reached w
      \<longrightarrow> set_bed_temperature temperature wait w = ([], w))
   \<and> (fst (set_bed_temperature temperature wait w) = [])
        = (temperature = m_last_bed_temperature w
           \<and> (wait \<longrightarrow> m_last_bed_temperature_reached w))
   \<and> (fst (set_bed_temperature temperature wait w) \<noteq> [] \<longrightarrow>
        fst (set_bed_temperature temperature wait w)
          = [Text ((if wait then ''M190'' else ''M140'') @ '' S'' @ to_chars temperature @ '' ; ''
                   @ (if wait then ''set bed temperature and wait for it to be reached''
                      else ''set bed temperature'') @ ''\<newline>'')]
        \<and> m_last_bed_temperature (snd (set_bed_temperature temperature wait w)) = temperature
        \<and> m_last_bed_temperature_reached (snd (set_bed_temperature temperature wait w)) = wait
        \<and> (fst (set_bed_temperature t b (snd (set_bed_temperature temperature wait w))) = [])
            = (t = temperature \<and> (b \<longrightarrow> wait)))
   \<and> (fst (set_bed_temperature temperature wait w) = [] \<longrightarrow>
        snd (set_bed_temperature temperature wait w) = w)
   \<and> set_bed_temperature temperature wait (snd (set_bed_temperature temperature wait w))
        = ([], snd (set_bed_temperature temperature wait w))
   \<and> fst (set_bed_temperature 60 False w)
        = (if m_last_bed_temperature w = 60 then []
           else [Text ''M140 S60 ; set bed temperature\<newline>''])
   \<and> fst (set_bed_temperature 60 False (snd (set_bed_temperature 60 False w))) = []
   \<and> fst (set_bed_temperature 60 True
            (snd (set_bed_temperature 60 False (snd (set_bed_temperature 60 False w)))))
        = (if m_last_bed_temperature w = 60 \<and> m_last_bed_temperature_reached w then []
           else [Text ''M190 S60 ; set bed temperature and wait for it to be reached\<newline>''])
   \<and> (m_last_bed_temperature w \<noteq> 60 \<longrightarrow>
        fst (set_bed_temperature 60 False w) = [Text ''M140 S60 ; set bed temperature\<newline>'']
        \<and> fst (set_bed_temperature 60 False (snd (set_bed_temperature 60 False w))) = []
        \<and> fst (set_bed_temperature 60 True
                 (snd (set_bed_temperature 60 False (snd (set_bed_temperature 60 False w)))))
            = [Text ''M190 S60 ; set bed temperature and wait for it to be reached\<newline>''])"
proof -
  have sixty: "to_chars 60 = ''60''"
    by (simp add: to_chars_def dec_digits.simps)
  show ?thesis
    by (simp add: set_bed_temperature_def sixty Let_def)
qed

theorem set_bed_temperature_dedup_witness:
  "m_last_bed_temperature example_writer \<noteq> 60
   \<and> fst (set_bed_temperature 60 False example_writer)
       = [Text ''M140 S60 ; set bed temperature\<newline>'']
   \<and> fst (set_bed_temperature 60 False (snd (set_bed_temperature 60 False example_writer))) = []
   \<and> fst (set_bed_temperature 60 True
            (snd (set_bed_temperature 60 False (snd (set_bed_temperature 60 False example_writer)))))
       = [Text ''M190 S60 ; set bed temperature and wait for it to be reached\<newline>'']
   \<and> m_last_bed_temperature (snd (set_bed_temperature 60 True example_writer)) = 60
   \<and> m_last_bed_temperature_reached (snd (set_bed_temperature 60 True example_writer))
   \<and> fst (set_bed_temperature 60 True (snd (set_bed_temperature 60 True example_writer))) = []
   \<and> fst (set_bed_temperature 60 False (snd (set_bed_temperature 60 True example_writer))) = []
   \<and> fst (set_bed_temperature 61 False (snd (set_bed_temperature 60 True example_writer))) \<noteq> []
   \<and> set_bed_temperature 0 True example_writer = ([], example_writer)"
proof -
  have ne: "m_last_bed_temperature example_writer \<noteq> 60"
    "0 = m_last_bed_temperature example_writer"
    "True = m_last_bed_temperature_reached example_writer"
    by (simp_all add: example_writer_def)
  have em: "fst (set_bed_temperature 60 True example_writer) \<noteq> []"
    using set_bed_temperature_dedup [of 60 example_writer True 60 True] ne by simp
  note a = set_bed_temperature_dedup [of 60 example_writer False 60 False]
  note b = set_bed_temperature_dedup [of 60 example_writer True 60 True]
  note c = set_bed_temperature_dedup [of 60 example_writer True 60 False]
  note d = set_bed_temperature_dedup [of 60 example_writer True 61 False]
  note e = set_bed_temperature_dedup [of 0 example_writer True 0 True]
  from a ne(1) have 1: "fst (set_bed_temperature 60 False example_writer)
       = [Text ''M140 S60 ; set bed temperature\<newline>'']"
    "fst (set_bed_temperature 60 False (snd (set_bed_temperature 60 False example_writer))) = []"
    "fst (set_bed_temperature 60 True
            (snd (set_bed_temperature 60 False (snd (set_bed_temperature 60 False example_writer)))))
       = [Text ''M190 S60 ; set bed temperature and wait for it to be reached\<newline>'']"
    by blast+
  from b em have 2: "m_last_bed_temperature (snd (set_bed_temperature 60 True example_writer)) = 60"
    "m_last_bed_temperature_reached (snd (set_bed_temperature 60 True example_writer))"
    "fst (set_bed_temperature 60 True (snd (set_bed_temperature 60 True example_writer))) = []"
    by blast+
  from c em have 3:
    "fst (set_bed_temperature 60 False (snd (set_bed_temperature 60 True example_writer))) = []"
    by blast
  from d em have 4:
    "fst (set_bed_temperature 61 False (snd (set_bed_temperature 60 True example_writer))) \<noteq> []"
    by auto
  from e ne(2,3) have 5: "set_bed_temperature 0 True example_writer = ([], example_writer)"
    by blast
  from ne(1) 1 2 3 4 5 show ?thesis by blast
qed

subsection \<open>Travel inside the lifted envelope\<close>

text \<open>
  Claim C2. With a lift applied and \<open>z\<close> strictly between the nominal Z
  (\<open>vec_z m_pos - m_lifted\<close>) and the current Z, \<open>travel_to_z\<close> returns the empty string
  and changes nothing but \<open>m_lifted\<close>, which becomes the distance from \<open>z\<close> up to the
  current Z (0 when that is below \<open>EPSILON\<close>): less than before and not negative. The
  \<open>unlift\<close> that follows travels down by that amount only.
\<close>

theorem travel_to_z_within_lift:
  assumes "0 < m_lifted w"
    and "vec_z (m_pos w) - m_lifted w < z"
    and "z < vec_z (m_pos w)"
  shows "\<not> will_move_z EPSILON z w
    \<and> fst (travel_to_z EPSILON z comment w) = []
    \<and> snd (travel_to_z EPSILON z comment w)
        = w\<lparr>m_lifted := (if vec_z (m_pos w) - z < EPSILON then 0 else vec_z (m_pos w) - z)\<rparr>
    \<and> m_pos (snd (travel_to_z EPSILON z comment w)) = m_pos w
    \<and> m_lifted (snd (travel_to_z EPSILON z comment w)) < m_lifted w
    \<and> 0 \<le> m_lifted (snd (travel_to_z EPSILON z comment w))
    \<and> fst (unlift (snd (travel_to_z EPSILON z comment w)))
        = (if 0 < m_lifted (snd (travel_to_z EPSILON z comment w))
           then [GCodeG1Formatter
                   [emit_z (vec_z (m_pos w) - m_lifted (snd (travel_to_z EPSILON z comment w))),
                    emit_f ((if travel_speed_z (config w) = 0 then travel_speed (config w)
                             else travel_speed_z (config w)) * 60),
                    emit_comment full_gcode_comment ''restore layer Z'']]
           else [])
    \<and> vec_z (m_pos (snd (unlift (snd (travel_to_z EPSILON z comment w)))))
        = vec_z (m_pos w) - m_lifted (snd (travel_to_z EPSILON z comment w))"
  using assms
  by (cases "m_pos w")
    (auto simp: will_move_z_def travel_to_z_def unlift_def underscore_travel_to_z_def Let_def
      split: prod.splits)

theorem travel_to_z_within_lift_witness:
  "0 < m_lifted (example_writer\<lparr>m_lifted := 1 / 2, m_pos := (10, 20, 3 / 2)\<rparr>)
   \<and> travel_to_z (1 / 10000) (5 / 4) [] (example_writer\<lparr>m_lifted := 1 / 2, m_pos := (10, 20, 3 / 2)\<rparr>)
       = ([], example_writer\<lparr>m_lifted := 1 / 4, m_pos := (10, 20, 3 / 2)\<rparr>)
   \<and> fst (unlift (example_writer\<lparr>m_lifted := 1 / 4, m_pos := (10, 20, 3 / 2)\<rparr>))
       = [GCodeG1Formatter [emit_z (5 / 4), emit_f 7200, emit_comment True ''restore layer Z'']]"
proof -
  let ?w = "example_writer\<lparr>m_lifted := 1 / 2, m_pos := (10, 20, 3 / 2)\<rparr>"
  have h: "0 < m_lifted ?w" "vec_z (m_pos ?w) - m_lifted ?w < 5 / 4" "5 / 4 < vec_z (m_pos ?w)"
    by simp_all
  have r: "snd (travel_to_z (1 / 10000) (5 / 4) [] ?w)
             = example_writer\<lparr>m_lifted := 1 / 4, m_pos := (10, 20, 3 / 2)\<rparr>"
    using travel_to_z_within_lift [OF h, of "1 / 10000" "[]"] by simp
  have "fst (travel_to_z (1 / 10000) (5 / 4) [] ?w) = []"
    using travel_to_z_within_lift [OF h, of "1 / 10000" "[]"] by blast
  moreover have "fst (unlift (snd (travel_to_z (1 / 10000) (5 / 4) [] ?w)))
       = [GCodeG1Formatter [emit_z (5 / 4), emit_f 7200, emit_comment True ''restore layer Z'']]"
    using travel_to_z_within_lift [OF h, of "1 / 10000" "[]"]
    by (simp add: r) (simp add: example_writer_def example_config_def full_gcode_comment_def)
  ultimately show ?thesis using h(1) r by (metis prod.collapse)
qed

subsection \<open>Frame lemmas of the writer\<close>

lemma update_extruder_frame:
  "update_extruder f w = Inr w' \<Longrightarrow>
     m_lifted w' = m_lifted w \<and> m_to_lift w' = m_to_lift w \<and> m_pos w' = m_pos w"
  by (auto simp: update_extruder_def split: option.splits if_splits)

lemma update_extruder_valid:
  "deref_extruder w = Inr ex \<Longrightarrow>
     \<exists>w'. update_extruder f w = Inr w' \<and> deref_extruder w' = Inr (f ex)
       \<and> m_lifted w' = m_lifted w \<and> m_pos w' = m_pos w
       \<and> m_x_offset w' = m_x_offset w \<and> m_y_offset w' = m_y_offset w"
  by (auto simp: deref_extruder_def update_extruder_def split: option.splits if_splits)

lemma spiral_frame [simp]:
  "m_lifted (snd (underscore_spiral_travel_to_z z ij c w)) = m_lifted w"
  "m_to_lift (snd (underscore_spiral_travel_to_z z ij c w)) = m_to_lift w"
  by (simp_all add: underscore_spiral_travel_to_z_def Let_def)

lemma set_clear_frame [simp]:
  "m_lifted (set_current_position_clear b w) = m_lifted w"
  "m_to_lift (set_current_position_clear b w) = m_to_lift w"
  "m_pos (set_current_position_clear b w) = m_pos w"
  by (simp_all add: set_current_position_clear_def)

lemma travel_to_xy_frame [simp]:
  "m_lifted (snd (travel_to_xy p c w)) = m_lifted w"
  "m_to_lift (snd (travel_to_xy p c w)) = m_to_lift w"
  by (simp_all add: travel_to_xy_def Let_def)

lemma extrude_to_xyz_lifted:
  "extrude_to_xyz point dE comment fne w = Inr (out, w') \<Longrightarrow>
     m_lifted w' = 0 \<and> m_to_lift w' = m_to_lift w"
  by (auto simp: extrude_to_xyz_def Let_def split: if_splits sum.splits
      dest!: update_extruder_frame)

lemma extrude_to_xy_lifted:
  "extrude_to_xy point dE comment fne w = Inr (out, w') \<Longrightarrow>
     m_lifted w' = m_lifted w \<and> m_to_lift w' = m_to_lift w"
  by (auto simp: extrude_to_xy_def Let_def split: if_splits sum.splits
      dest!: update_extruder_frame)

lemma extrude_arc_to_xy_lifted:
  "extrude_arc_to_xy point c dE ccw comment fne w = Inr (out, w') \<Longrightarrow>
     m_lifted w' = m_lifted w \<and> m_to_lift w' = m_to_lift w"
  by (auto simp: extrude_arc_to_xy_def Let_def split: if_splits sum.splits
      dest!: update_extruder_frame)

lemma reset_e_lifted:
  "reset_e force w = Inr (out, w') \<Longrightarrow>
     m_lifted w' = m_lifted w \<and> m_to_lift w' = m_to_lift w"
  by (auto simp: reset_e_def Let_def split: if_splits sum.splits option.splits
      dest!: update_extruder_frame)

lemma toolchange_lifted:
  "toolchange i w = Inr (out, w') \<Longrightarrow>
     m_lifted w' = m_lifted w \<and> m_to_lift w' = m_to_lift w"
  by (auto simp: toolchange_def Let_def split: if_splits sum.splits prod.splits
      dest!: reset_e_lifted)

lemma set_extruders_lifted:
  "set_extruders ids w = Inr w' \<Longrightarrow>
     m_lifted w' = m_lifted w \<and> m_to_lift w' = m_to_lift w"
  by (auto simp: set_extruders_def Let_def split: if_splits)

lemma set_bed_temperature_lifted:
  "set_bed_temperature t b w = (out, w') \<Longrightarrow>
     m_lifted w' = m_lifted w \<and> m_to_lift w' = m_to_lift w"
  by (auto simp: set_bed_temperature_def Let_def split: if_splits)

subsection \<open>The lift invariant, method by method\<close>

lemma travel_to_z_invariant:
  "lift_invariant w \<Longrightarrow> travel_to_z EPSILON z c w = (out, w') \<Longrightarrow> lift_invariant w'"
  by (auto simp: travel_to_z_def will_move_z_def lift_invariant_def
      underscore_travel_to_z_def Let_def split: if_splits)

lemma travel_to_xyz_pending_aux:
  "\<bar>m_lifted w\<bar> < EPSILON \<Longrightarrow> EPSILON < \<bar>m_to_lift w\<bar> \<Longrightarrow>
     m_to_lift (snd (projr (travel_to_xyz EPSILON p c w))) = 0"
  by (simp add: travel_to_xyz_def Let_def case_prod_beta)

lemma travel_to_xyz_pending:
  assumes "travel_to_xyz EPSILON p c w = Inr (out, w')" and "EPSILON < \<bar>m_to_lift w\<bar>"
  shows "m_to_lift w' = 0"
proof -
  from assms have "\<bar>m_lifted w\<bar> < EPSILON"
    by (simp add: travel_to_xyz_def split: if_splits)
  from travel_to_xyz_pending_aux [OF this assms(2), of p c] assms(1) show ?thesis
    by simp
qed

lemma travel_to_xyz_not_pending:
  assumes "travel_to_xyz EPSILON p c w = Inr (out, w')" and "\<not> EPSILON < \<bar>m_to_lift w\<bar>"
  shows "m_to_lift w' = m_to_lift w \<and> (m_lifted w' = 0 \<or> 0 < m_lifted w)"
proof (cases "will_move_z EPSILON (vec_z p) w")
  case True
  with assms show ?thesis
    by (auto simp: travel_to_xyz_def Let_def)
next
  case False
  with assms have w': "w' = snd (travel_to_xy (to_2d p) []
      (set_current_position_clear True
        (if \<bar>vec_z (m_pos w) - vec_z p\<bar> < EPSILON then w\<lparr>m_lifted := 0\<rparr>
         else w\<lparr>m_lifted := vec_z (m_pos w) - vec_z p\<rparr>)))"
    by (auto simp: travel_to_xyz_def Let_def)
  from False show ?thesis unfolding w'
    by (auto simp: will_move_z_def Let_def split: if_splits)
qed

lemma travel_to_xyz_invariant:
  "lift_invariant w \<Longrightarrow> travel_to_xyz EPSILON p c w = Inr (out, w') \<Longrightarrow> lift_invariant w'"
  by (cases "EPSILON < \<bar>m_to_lift w\<bar>")
    (auto simp: lift_invariant_def dest: travel_to_xyz_pending travel_to_xyz_not_pending)

lemma lift_invariant_step:
  "lift_invariant w \<Longrightarrow> lift t w = Inr (out, w') \<Longrightarrow> lift_invariant w'"
  by (auto simp: lift_def lift_invariant_def underscore_travel_to_z_def Let_def
      split: if_splits sum.splits)

lemma unlift_invariant:
  "unlift w = (out, w') \<Longrightarrow> lift_invariant w'"
  by (auto simp: unlift_def lift_invariant_def underscore_travel_to_z_def Let_def
      split: if_splits prod.splits)

lemma call_invariant:
  assumes "lift_invariant w" and "call EPSILON c w = Inr (out, w')"
  shows "lift_invariant w'"
proof (cases c)
  case (Call_set_extruders ids)
  with assms show ?thesis
    by (auto simp: lift_invariant_def split: sum.splits dest!: set_extruders_lifted)
next
  case (Call_set_bed_temperature t b)
  with assms show ?thesis
    by (auto simp: lift_invariant_def dest!: set_bed_temperature_lifted)
next
  case (Call_reset_e f)
  with assms show ?thesis
    by (auto simp: lift_invariant_def dest!: reset_e_lifted)
next
  case (Call_toolchange i)
  with assms show ?thesis
    by (auto simp: lift_invariant_def dest!: toolchange_lifted)
next
  case (Call_travel_to_xy p s)
  with assms have "w' = snd (travel_to_xy p s w)" by auto
  with assms(1) show ?thesis by (simp add: lift_invariant_def)
next
  case (Call_travel_to_xyz p s)
  with assms show ?thesis
    by (auto dest: travel_to_xyz_invariant)
next
  case (Call_travel_to_z z s)
  with assms show ?thesis
    by (auto dest: travel_to_z_invariant)
next
  case (Call_extrude_to_xy p dE s f)
  with assms show ?thesis
    by (auto simp: lift_invariant_def dest!: extrude_to_xy_lifted)
next
  case (Call_extrude_arc_to_xy p q dE ccw s f)
  with assms show ?thesis
    by (auto simp: lift_invariant_def dest!: extrude_arc_to_xy_lifted)
next
  case (Call_extrude_to_xyz p dE s f)
  with assms show ?thesis
    by (auto simp: lift_invariant_def dest!: extrude_to_xyz_lifted)
next
  case (Call_lift t)
  with assms show ?thesis
    by (auto dest: lift_invariant_step)
next
  case Call_unlift
  with assms show ?thesis
    by (auto dest: unlift_invariant)
qed

text \<open>
  Claim C3. Every call of the writer preserves the invariant that the applied lift
  (\<open>0 < m_lifted\<close>) and the pending lift request (\<open>m_to_lift \<noteq> 0\<close>) are not both
  non-trivial. \<open>lift\<close> returns the empty string and leaves the writer as it is whenever
  a lift is applied or pending (the extruder it reads the Z hop of being valid).
  \<open>unlift\<close> always clears the pending request, leaves no lift applied, and emits the
  reverse Z travel exactly when a lift was applied.
\<close>

theorem lift_state_machine:
  "(lift_invariant w \<and> call EPSILON c w = Inr (out, w') \<longrightarrow> lift_invariant w')
   \<and> (deref_extruder w = Inr ex \<and> (0 < m_lifted w \<or> m_to_lift w \<noteq> 0)
        \<longrightarrow> lift lift_type w = Inr ([], w))
   \<and> m_to_lift (snd (unlift w)) = 0
   \<and> \<not> 0 < m_lifted (snd (unlift w))
   \<and> fst (unlift w) =
       (if 0 < m_lifted w
        then [GCodeG1Formatter
                [emit_z (vec_z (m_pos w) - m_lifted w),
                 emit_f ((if travel_speed_z (config w) = 0 then travel_speed (config w)
                          else travel_speed_z (config w)) * 60),
                 emit_comment full_gcode_comment ''restore layer Z'']]
        else [])"
proof -
  have "lift_invariant w \<and> call EPSILON c w = Inr (out, w') \<longrightarrow> lift_invariant w'"
    using call_invariant by blast
  moreover have "deref_extruder w = Inr ex \<and> (0 < m_lifted w \<or> m_to_lift w \<noteq> 0)
        \<longrightarrow> lift lift_type w = Inr ([], w)"
    by (auto simp: lift_def)
  moreover have "m_to_lift (snd (unlift w)) = 0" "\<not> 0 < m_lifted (snd (unlift w))"
    by (simp_all add: unlift_def underscore_travel_to_z_def Let_def)
  moreover have "fst (unlift w) =
       (if 0 < m_lifted w
        then [GCodeG1Formatter
                [emit_z (vec_z (m_pos w) - m_lifted w),
                 emit_f ((if travel_speed_z (config w) = 0 then travel_speed (config w)
                          else travel_speed_z (config w)) * 60),
                 emit_comment full_gcode_comment ''restore layer Z'']]
        else [])"
    by (simp add: unlift_def underscore_travel_to_z_def Let_def)
  ultimately show ?thesis by blast
qed

theorem lift_state_machine_witness:
  "lift_invariant example_writer
   \<and> call (1 / 10000) (Call_lift LazyLift) example_writer
       = Inr ([], example_writer\<lparr>m_to_lift := 4 / 10, m_to_lift_type := LazyLift\<rparr>)
   \<and> lift_invariant (example_writer\<lparr>m_to_lift := 4 / 10, m_to_lift_type := LazyLift\<rparr>)
   \<and> deref_extruder (example_writer\<lparr>m_to_lift := 4 / 10\<rparr>) = Inr (Extruder_new 0)
   \<and> lift NormalLift (example_writer\<lparr>m_to_lift := 4 / 10\<rparr>)
       = Inr ([], example_writer\<lparr>m_to_lift := 4 / 10\<rparr>)
   \<and> fst (unlift (example_writer\<lparr>m_lifted := 4 / 10\<rparr>))
       = [GCodeG1Formatter [emit_z (6 / 10), emit_f 7200, emit_comment True ''restore layer Z'']]"
proof -
  let ?w1 = "example_writer\<lparr>m_to_lift := 4 / 10, m_to_lift_type := LazyLift\<rparr>"
  have inv: "lift_invariant example_writer"
    by (simp add: lift_invariant_def example_writer_def)
  have c: "call (1 / 10000) (Call_lift LazyLift) example_writer = Inr ([], ?w1)"
    by (simp add: lift_def deref_extruder_def example_writer_def example_config_def
        Extruder_new_def Let_def)
  have d: "deref_extruder (example_writer\<lparr>m_to_lift := 4 / 10\<rparr>) = Inr (Extruder_new 0)"
    by (simp add: deref_extruder_def example_writer_def)
  have p: "0 < m_lifted (example_writer\<lparr>m_to_lift := 4 / 10\<rparr>)
           \<or> m_to_lift (example_writer\<lparr>m_to_lift := 4 / 10\<rparr>) \<noteq> 0"
    by simp
  from lift_state_machine [of example_writer "1 / 10000" "Call_lift LazyLift" "[]" ?w1
      "Extruder_new 0" NormalLift] inv c
  have "lift_invariant ?w1" by blast
  moreover
  from lift_state_machine [of "example_writer\<lparr>m_to_lift := 4 / 10\<rparr>" "1 / 10000" Call_unlift
      "[]" example_writer "Extruder_new 0" NormalLift] d p
  have "lift NormalLift (example_writer\<lparr>m_to_lift := 4 / 10\<rparr>)
       = Inr ([], example_writer\<lparr>m_to_lift := 4 / 10\<rparr>)" by blast
  moreover
  from lift_state_machine [of "example_writer\<lparr>m_lifted := 4 / 10\<rparr>" "1 / 10000" Call_unlift
      "[]" example_writer "Extruder_new 0" NormalLift]
  have "fst (unlift (example_writer\<lparr>m_lifted := 4 / 10\<rparr>))
       = [GCodeG1Formatter [emit_z (6 / 10), emit_f 7200, emit_comment True ''restore layer Z'']]"
    by (simp add: example_writer_def example_config_def full_gcode_comment_def)
  ultimately show ?thesis using inv c d by blast
qed

text \<open>
  Claim C10. \<open>extrude_to_xyz\<close> sets \<open>m_lifted\<close> to 0 whenever it returns, and what it
  returns is the one line of the move itself (no Z travel of an unlift beside it);
  \<open>extrude_to_xy\<close> and \<open>extrude_arc_to_xy\<close> leave \<open>m_lifted\<close> as it was. With a valid
  \<open>m_extruder\<close> all three return.
\<close>

theorem extrude_to_xyz_cancels_lift:
  "(extrude_to_xyz point dE comment force_no_extrusion w = Inr (out, w') \<longrightarrow> m_lifted w' = 0)
   \<and> (extrude_to_xy point2 dE comment force_no_extrusion w = Inr (out, w')
        \<longrightarrow> m_lifted w' = m_lifted w)
   \<and> (extrude_arc_to_xy point2 center_offset dE is_ccw comment force_no_extrusion w = Inr (out, w')
        \<longrightarrow> m_lifted w' = m_lifted w)
   \<and> (deref_extruder w = Inr ex \<longrightarrow>
        (\<exists>w1. extrude_to_xyz point dE comment force_no_extrusion w =
           Inr ([GCodeG1Formatter
                   ([emit_xyz (vec_x point - m_x_offset w, vec_y point - m_y_offset w, vec_z point)]
                    @ (if force_no_extrusion then [] else [emit_e (m_E ex + dE)])
                    @ [emit_comment full_gcode_comment comment])], w1)
           \<and> m_lifted w1 = 0 \<and> m_pos w1 = point)
        \<and> (\<exists>g2 w2. extrude_to_xy point2 dE comment force_no_extrusion w = Inr (g2, w2)
              \<and> m_lifted w2 = m_lifted w)
        \<and> (\<exists>g3 w3. extrude_arc_to_xy point2 center_offset dE is_ccw comment force_no_extrusion w
                       = Inr (g3, w3) \<and> m_lifted w3 = m_lifted w))"
proof -
  have a: "extrude_to_xyz point dE comment force_no_extrusion w = Inr (out, w') \<longrightarrow> m_lifted w' = 0"
    using extrude_to_xyz_lifted by blast
  have b: "extrude_to_xy point2 dE comment force_no_extrusion w = Inr (out, w')
        \<longrightarrow> m_lifted w' = m_lifted w"
    using extrude_to_xy_lifted by blast
  have c: "extrude_arc_to_xy point2 center_offset dE is_ccw comment force_no_extrusion w = Inr (out, w')
        \<longrightarrow> m_lifted w' = m_lifted w"
    using extrude_arc_to_xy_lifted by blast
  have d: "\<exists>w1. extrude_to_xyz point dE comment force_no_extrusion w =
           Inr ([GCodeG1Formatter
                   ([emit_xyz (vec_x point - m_x_offset w, vec_y point - m_y_offset w, vec_z point)]
                    @ (if force_no_extrusion then [] else [emit_e (m_E ex + dE)])
                    @ [emit_comment full_gcode_comment comment])], w1)
           \<and> m_lifted w1 = 0 \<and> m_pos w1 = point" if v: "deref_extruder w = Inr ex"
  proof -
    from v have "deref_extruder (w\<lparr>m_pos := point, m_lifted := 0\<rparr>) = Inr ex"
      by (auto simp: deref_extruder_def split: option.splits if_splits)
    from update_extruder_valid [OF this, of "Extruder_extrude dE"] show ?thesis
      by (auto simp: extrude_to_xyz_def Let_def Extruder_extrude_def)
  qed
  have e: "\<exists>g2 w2. extrude_to_xy point2 dE comment force_no_extrusion w = Inr (g2, w2)
              \<and> m_lifted w2 = m_lifted w" if v: "deref_extruder w = Inr ex"
  proof -
    from v have "deref_extruder (w\<lparr>m_pos := (fst point2, snd point2, vec_z (m_pos w))\<rparr>) = Inr ex"
      by (auto simp: deref_extruder_def split: option.splits if_splits)
    from update_extruder_valid [OF this, of "Extruder_extrude dE"] show ?thesis
      by (auto simp: extrude_to_xy_def Let_def)
  qed
  have f: "\<exists>g3 w3. extrude_arc_to_xy point2 center_offset dE is_ccw comment force_no_extrusion w
                       = Inr (g3, w3) \<and> m_lifted w3 = m_lifted w" if v: "deref_extruder w = Inr ex"
  proof -
    from v have "deref_extruder (w\<lparr>m_pos := (fst point2, snd point2, vec_z (m_pos w))\<rparr>) = Inr ex"
      by (auto simp: deref_extruder_def split: option.splits if_splits)
    from update_extruder_valid [OF this, of "Extruder_extrude dE"] show ?thesis
      by (auto simp: extrude_arc_to_xy_def Let_def)
  qed
  from a b c d e f show ?thesis by blast
qed

theorem extrude_to_xyz_cancels_lift_witness:
  "deref_extruder example_writer = Inr (Extruder_new 0)
   \<and> (\<exists>w1. extrude_to_xyz (1, 2, 3) (1 / 2) [] False (example_writer\<lparr>m_lifted := 1 / 2\<rparr>)
          = Inr ([GCodeG1Formatter [emit_xyz (1, 2, 3), emit_e (1 / 2), emit_comment True []]], w1)
        \<and> m_lifted w1 = 0 \<and> m_pos w1 = (1, 2, 3))
   \<and> (\<exists>g2 w2. extrude_to_xy (1, 2) (1 / 2) [] False (example_writer\<lparr>m_lifted := 1 / 2\<rparr>)
          = Inr (g2, w2) \<and> m_lifted w2 = 1 / 2)"
proof -
  have d: "deref_extruder (example_writer\<lparr>m_lifted := 1 / 2\<rparr>) = Inr (Extruder_new 0)"
    "deref_extruder example_writer = Inr (Extruder_new 0)"
    by (simp_all add: deref_extruder_def example_writer_def)
  from extrude_to_xyz_cancels_lift [of "(1, 2, 3)" "1 / 2" "[]" False
      "example_writer\<lparr>m_lifted := 1 / 2\<rparr>" "[]" example_writer "(1, 2)" "(0, 0)" True
      "Extruder_new 0"] d
  show ?thesis
    by (simp add: example_writer_def Extruder_new_def full_gcode_comment_def)
qed

subsection \<open>Tool change\<close>

lemma lower_bound_found:
  assumes "sorted (map m_id es)" and "x \<in> m_id ` set es"
  shows "lower_bound_by_predicate es (\<lambda>e. m_id e < x) < length es
         \<and> m_id (es ! lower_bound_by_predicate es (\<lambda>e. m_id e < x)) = x"
  using assms unfolding lower_bound_by_predicate_def
proof (induction es)
  case Nil
  then show ?case by simp
next
  case (Cons e es)
  show ?case
  proof (cases "m_id e < x")
    case True
    with Cons.prems have "x \<in> m_id ` set es" by auto
    with Cons True show ?thesis by simp
  next
    case False
    from Cons.prems obtain e' where "e' \<in> set (e # es)" "m_id e' = x" by auto
    with Cons.prems(1) have "m_id e \<le> x" by auto
    with False show ?thesis by simp
  qed
qed

lemma lower_bound_missing:
  assumes "x \<notin> m_id ` set es"
  shows "\<not> (lower_bound_by_predicate es P \<noteq> length es
            \<and> m_id (es ! lower_bound_by_predicate es P) = x)"
proof -
  have "lower_bound_by_predicate es P \<le> length es"
    by (simp add: lower_bound_by_predicate_def length_takeWhile_le)
  with assms show ?thesis
    by (metis image_eqI le_neq_implies_less nth_mem)
qed

lemma reset_e_forced:
  assumes "m_extruder w = Some i" and "i < length (m_extruders w)"
  shows "reset_e True w =
     (if gcode_flavor (config w) = gcfMach3 \<or> gcode_flavor (config w) = gcfMakerWare
          \<or> gcode_flavor (config w) = gcfSailfish
      then Inr ([], w)
      else Inr (reset_e_text w,
                w\<lparr>m_extruders := (m_extruders w)[i := Extruder_reset_E (m_extruders w ! i)]\<rparr>))"
  using assms
  by (simp add: reset_e_def deref_extruder_def update_extruder_def reset_e_text_def)

text \<open>
  Claim C4, as amended. On a writer whose extruders are sorted by id (as
  \<open>set_extruders\<close> leaves them), \<open>toolchange\<close> fails its assertion for an id that no
  configured extruder has. For a configured id it points \<open>m_extruder\<close> at that extruder;
  when the flag \<open>multiple_extruders\<close> is set it returns the tool-select line followed by
  the text of \<open>reset_e(true)\<close>, having reset the E position of the selected extruder
  (both left out for the Mach3, MakerWare and Sailfish flavors), and otherwise it
  returns the empty string. \<open>set_extruders\<close> sets the flag exactly when the largest
  configured id is greater than 0, whatever the number of extruders.
\<close>

theorem toolchange_configured:
  assumes "sorted (map m_id (m_extruders w))"
  shows
   "(extruder_id \<notin> m_id ` set (m_extruders w) \<longrightarrow> toolchange extruder_id w = Inl AssertionFailure)
    \<and> (extruder_id \<in> m_id ` set (m_extruders w) \<longrightarrow>
         (\<exists>i g w'. toolchange extruder_id w = Inr (g, w')
            \<and> i < length (m_extruders w) \<and> m_id (m_extruders w ! i) = extruder_id
            \<and> m_extruder w' = Some i
            \<and> g = (if multiple_extruders w
                   then Text (toolchange_prefix w @ dec_digits extruder_id
                              @ '' ; change extruder\<newline>'')
                        # (if gcode_flavor (config w) = gcfMach3
                              \<or> gcode_flavor (config w) = gcfMakerWare
                              \<or> gcode_flavor (config w) = gcfSailfish
                           then [] else reset_e_text w)
                   else [])
            \<and> w' = (if multiple_extruders w
                        \<and> \<not> (gcode_flavor (config w) = gcfMach3
                              \<or> gcode_flavor (config w) = gcfMakerWare
                              \<or> gcode_flavor (config w) = gcfSailfish)
                    then w\<lparr>m_extruder := Some i,
                           m_extruders := (m_extruders w)[i := Extruder_reset_E (m_extruders w ! i)]\<rparr>
                    else w\<lparr>m_extruder := Some i\<rparr>)))
    \<and> (set_extruders ids w0 = Inr w1 \<longrightarrow>
          map m_id (m_extruders w1) = sort ids \<and> sorted (map m_id (m_extruders w1))
          \<and> multiple_extruders w1 = (0 < Max (set ids)))"
proof -
  let ?i = "lower_bound_by_predicate (m_extruders w) (\<lambda>e. m_id e < extruder_id)"
  have a: "toolchange extruder_id w = Inl AssertionFailure"
    if "extruder_id \<notin> m_id ` set (m_extruders w)"
    using lower_bound_missing [OF that, of "\<lambda>e. m_id e < extruder_id"]
    by (simp add: toolchange_def Let_def)
  have b: "\<exists>i g w'. toolchange extruder_id w = Inr (g, w')
            \<and> i < length (m_extruders w) \<and> m_id (m_extruders w ! i) = extruder_id
            \<and> m_extruder w' = Some i
            \<and> g = (if multiple_extruders w
                   then Text (toolchange_prefix w @ dec_digits extruder_id
                              @ '' ; change extruder\<newline>'')
                        # (if gcode_flavor (config w) = gcfMach3
                              \<or> gcode_flavor (config w) = gcfMakerWare
                              \<or> gcode_flavor (config w) = gcfSailfish
                           then [] else reset_e_text w)
                   else [])
            \<and> w' = (if multiple_extruders w
                        \<and> \<not> (gcode_flavor (config w) = gcfMach3
                              \<or> gcode_flavor (config w) = gcfMakerWare
                              \<or> gcode_flavor (config w) = gcfSailfish)
                    then w\<lparr>m_extruder := Some i,
                           m_extruders := (m_extruders w)[i := Extruder_reset_E (m_extruders w ! i)]\<rparr>
                    else w\<lparr>m_extruder := Some i\<rparr>)"
    if "extruder_id \<in> m_id ` set (m_extruders w)"
  proof -
    from lower_bound_found [OF assms that]
    have i: "?i < length (m_extruders w)" "m_id (m_extruders w ! ?i) = extruder_id"
      by simp_all
    have r: "reset_e True (w\<lparr>m_extruder := Some ?i\<rparr>) =
      (if gcode_flavor (config w) = gcfMach3 \<or> gcode_flavor (config w) = gcfMakerWare
          \<or> gcode_flavor (config w) = gcfSailfish
       then Inr ([], w\<lparr>m_extruder := Some ?i\<rparr>)
       else Inr (reset_e_text w,
                w\<lparr>m_extruder := Some ?i,
                  m_extruders := (m_extruders w)[?i := Extruder_reset_E (m_extruders w ! ?i)]\<rparr>))"
      using i(1) by (simp add: reset_e_forced [of _ ?i] reset_e_text_def)
    show ?thesis
      apply (rule exI [of _ ?i])
      using i
      by (simp add: toolchange_def Let_def r toolchange_prefix_def full_gcode_comment_def)
  qed
  have c: "map m_id (m_extruders w1) = sort ids \<and> sorted (map m_id (m_extruders w1))
          \<and> multiple_extruders w1 = (0 < Max (set ids))"
    if "set_extruders ids w0 = Inr w1"
    using that
    by (auto simp: set_extruders_def Let_def Extruder_new_def comp_def split: if_splits)
  from a b c show ?thesis by blast
qed

theorem toolchange_configured_witness:
  "sorted (map m_id (m_extruders example_writer))
   \<and> toolchange 3 example_writer = Inl AssertionFailure
   \<and> toolchange 0 example_writer = Inr ([], example_writer)"
proof -
  have s: "sorted (map m_id (m_extruders example_writer))"
    by (simp add: example_writer_def)
  have "3 \<notin> m_id ` set (m_extruders example_writer)"
    "0 \<in> m_id ` set (m_extruders example_writer)"
    by (simp_all add: example_writer_def Extruder_new_def)
  with toolchange_configured [OF s, of 3 "[0]" example_writer example_writer]
    toolchange_configured [OF s, of 0 "[0]" example_writer example_writer]
  show ?thesis using s
    by (auto simp: example_writer_def)
qed

text \<open>
  The claim as stated fails: with the single extruder 1 configured, \<open>toolchange 1\<close>
  emits the tool-select line and the reset.
\<close>

theorem toolchange_single_extruder_counterexample:
  "(case set_extruders [1] example_writer of
      Inl e \<Rightarrow> False
    | Inr w \<Rightarrow>
        length (m_extruders w) = 1
        \<and> map_sum id fst (toolchange 1 w)
            = Inr [Text ''T1 ; change extruder\<newline>'',
                   Text ''G92 E0 ; reset extrusion distance\<newline>''])"
  by (simp add: set_extruders_def toolchange_def lower_bound_by_predicate_def Let_def
      example_writer_def example_config_def Extruder_new_def reset_e_def reset_e_text_def
      deref_extruder_def update_extruder_def toolchange_prefix_def full_gcode_comment_def
      dec_digits.simps)

subsection \<open>Extruding moves with a filament delta of zero\<close>

text \<open>
  Claim C8. Only \<open>extrude_to_xy\<close> skips the extruder and the E field when
  \<open>\<bar>dE\<bar>\<close> is at most the machine epsilon. With \<open>dE = 0\<close> and extrusion not
  suppressed by the caller, \<open>extrude_to_xyz\<close> and \<open>extrude_arc_to_xy\<close> still call the
  extruder and emit an E field.
\<close>

theorem extrude_zero_dE_evaluation:
  "map_sum id fst (extrude_to_xy (1, 2) 0 [] False example_writer)
      = Inr [GCodeG1Formatter [emit_xy (1, 2), emit_comment True []]]
   \<and> map_sum id fst (extrude_to_xyz (1, 2, 3) 0 [] False example_writer)
      = Inr [GCodeG1Formatter [emit_xyz (1, 2, 3), emit_e 0, emit_comment True []]]
   \<and> map_sum id fst (extrude_arc_to_xy (1, 2) (5, 5) 0 True [] False example_writer)
      = Inr [GCodeG2G3Formatter True [emit_xy (1, 2), emit_ij (5, 5), emit_e 0, emit_comment True []]]"
  by (simp add: extrude_to_xy_def extrude_to_xyz_def extrude_arc_to_xy_def Let_def
      example_writer_def double_epsilon_def update_extruder_def deref_extruder_def
      Extruder_extrude_def Extruder_new_def full_gcode_comment_def)

subsection \<open>Pressure advance\<close>

lemma frac_digits_numeral:
  "frac_digits (numeral k) r
     = frac_digits (pred_numeral k) (r div 10) @ [''0123456789'' ! (r mod 10)]"
proof -
  have "frac_digits (Suc (pred_numeral k)) r
      = frac_digits (pred_numeral k) (r div 10) @ [''0123456789'' ! (r mod 10)]"
    by (rule frac_digits.simps)
  then show ?thesis by (simp only: numeral_eq_Suc [of k, symmetric])
qed

lemma is_digit_not_newline: "is_digit c \<Longrightarrow> c \<noteq> CHR 0x0A"
  by (auto simp: is_digit_def)

lemma fixed_stripped_no_newline: "CHR 0x0A \<notin> set (fixed_stripped N k)"
proof -
  have "c \<in> set (fixed_stripped N k) \<Longrightarrow> is_digit c \<or> c = CHR ''.''" for c
    using dec_digits_digits [of c "N div 10 ^ k"] frac_digits_digits [of c k "N mod 10 ^ k"]
      strip_zeros_subset [of "frac_digits k (N mod 10 ^ k)"]
    by (auto simp: fixed_stripped_def split: if_splits)
  then show ?thesis
    using is_digit_not_newline by fastforce
qed

lemma dec_digits_no_newline: "CHR 0x0A \<notin> set (dec_digits n)"
  using dec_digits_digits is_digit_not_newline by blast

lemma printf_g_no_newline: "CHR 0x0A \<notin> set (printf_g p v)"
  by (simp add: printf_g_def Let_def fixed_stripped_no_newline dec_digits_no_newline)

lemma printf_g_nonempty: "printf_g p v \<noteq> []"
  using dec_digits_nonempty
  by (auto simp: printf_g_def fixed_stripped_def Let_def)

text \<open>
  Claim C6, as amended. \<open>set_pressure_advance\<close> returns the empty string when
  \<open>pa < 0\<close>. Otherwise it returns one line: the command of the dialect (\<^verbatim>\<open>M900 K\<close> with
  the suffix \<^verbatim>\<open>L1000 M10\<close> for BBL printers, \<^verbatim>\<open>SET_PRESSURE_ADVANCE ADVANCE=\<close> for
  Klipper, \<^verbatim>\<open>M572 D0 S\<close> for RepRapFirmware, \<^verbatim>\<open>M900 K\<close> otherwise), the value as the
  stream writes it at precision 4 without \<^verbatim>\<open>std::fixed\<close> (four significant digits, the
  notation of \<^verbatim>\<open>%.4g\<close>), and the comment; the only newline is the one that ends it.
\<close>

theorem set_pressure_advance_significant_digits:
  "(pa < 0 \<longrightarrow> set_pressure_advance pa w = [])
   \<and> (\<not> pa < 0 \<longrightarrow>
        set_pressure_advance pa w
          = [Text ((if m_is_bbl_printers w then ''M900 K''
                  else if gcode_flavor (config w) = gcfKlipper then ''SET_PRESSURE_ADVANCE ADVANCE=''
                  else if gcode_flavor (config w) = gcfRepRapFirmware then ''M572 D0 S''
                  else ''M900 K'')
                   @ printf_g 4 pa
                   @ (if m_is_bbl_printers w
                    then '' L1000 M10 ; Override pressure advance value\<newline>''
                    else ''; Override pressure advance value\<newline>''))]
        \<and> printf_g 4 pa \<noteq> []
        \<and> CHR 0x0A \<notin> set (printf_g 4 pa)
        \<and> length (filter (\<lambda>c. c = CHR 0x0A)
                    ((if m_is_bbl_printers w then ''M900 K''
                  else if gcode_flavor (config w) = gcfKlipper then ''SET_PRESSURE_ADVANCE ADVANCE=''
                  else if gcode_flavor (config w) = gcfRepRapFirmware then ''M572 D0 S''
                  else ''M900 K'')
                     @ printf_g 4 pa
                     @ (if m_is_bbl_printers w
                    then '' L1000 M10 ; Override pressure advance value\<newline>''
                    else ''; Override pressure advance value\<newline>''))) = 1)"
proof -
  have n: "CHR 0x0A \<notin> set (printf_g 4 pa)" by (rule printf_g_no_newline)
  then have f: "filter (\<lambda>c. c = CHR 0x0A) (printf_g 4 pa) = []"
    by (auto simp: filter_empty_conv)
  show ?thesis
    using n printf_g_nonempty [of 4 pa]
    by (simp add: set_pressure_advance_def f)
qed

lemma printf_g_example: "printf_g 4 (3 / 256) = ''0.01172''"
  unfolding printf_g_def decimal_exponent_def pow10_def round_half_even_def fixed_stripped_def
    strip_zeros_def Let_def
  by (simp add: leading_zeros.simps dec_digits.simps frac_digits_numeral)

theorem set_pressure_advance_significant_digits_witness:
  "\<not> (3 / 256 :: real) < 0
   \<and> set_pressure_advance (3 / 256) example_writer
       = [Text ''M900 K0.01172; Override pressure advance value\<newline>'']
   \<and> (- 1 :: real) < 0
   \<and> set_pressure_advance (- 1) example_writer = []"
  using set_pressure_advance_significant_digits [of "3 / 256" example_writer]
    set_pressure_advance_significant_digits [of "- 1" example_writer]
  by (simp add: printf_g_example example_writer_def example_config_def)

text \<open>
  The claim as stated fails: 3/256 = 0.01171875 is written \<open>0.01172\<close>, with five
  decimals, where the value at a fixed four decimals is \<open>0.0117\<close>.
\<close>

theorem set_pressure_advance_fixed_decimals_counterexample:
  "set_pressure_advance (3 / 256) example_writer
       = [Text ''M900 K0.01172; Override pressure advance value\<newline>'']
   \<and> fixed_decimals 4 (3 / 256) = ''0.0117''
   \<and> token_value ''0.01172'' \<noteq> token_value ''0.0117''"
proof -
  have "fixed_decimals 4 (3 / 256) = ''0.0117''"
    unfolding fixed_decimals_def round_half_even_def Let_def
    by (simp add: dec_digits.simps frac_digits_numeral)
  moreover have "token_value ''0.01172'' \<noteq> token_value ''0.0117''"
    by (simp add: token_value_def digits_value_def digit_value_def)
  moreover have "set_pressure_advance (3 / 256) example_writer
       = [Text ''M900 K0.01172; Override pressure advance value\<newline>'']"
    by (simp add: set_pressure_advance_def printf_g_example example_writer_def example_config_def)
  ultimately show ?thesis by blast
qed

subsection \<open>Spiral vase: the Z ramp\<close>

lemma prescan_line_apply:
  "prescan_line line (t0, h0, zz, sz)
   = (if cmd line = ''G1'' \<and> extruding line then (t0 + dist_XY line, h0, zz, sz)
      else if cmd line = ''G1'' \<and> m_mask line Z then
        (t0, h0 + dist_Z line, (if sz then zz else new_Z line), True)
      else (t0, h0, zz, sz))"
  by (simp add: prescan_line_def)

lemma prescan_line_fold:
  "foldl (\<lambda>acc line. prescan_line line acc) (t0, h0, zz, sz) gcode
   = (t0 + sum_list (map dist_XY (filter (\<lambda>l. cmd l = ''G1'' \<and> extruding l) gcode)),
      h0 + sum_list (map dist_Z (filter (\<lambda>l. cmd l = ''G1'' \<and> \<not> extruding l \<and> m_mask l Z) gcode)),
      (if sz then zz
       else case filter (\<lambda>l. cmd l = ''G1'' \<and> \<not> extruding l \<and> m_mask l Z) gcode of
              [] \<Rightarrow> zz | l # ls \<Rightarrow> new_Z l),
      sz \<or> filter (\<lambda>l. cmd l = ''G1'' \<and> \<not> extruding l \<and> m_mask l Z) gcode \<noteq> [])"
proof (induction gcode arbitrary: t0 h0 zz sz)
  case Nil
  then show ?case by simp
next
  case (Cons line gcode)
  show ?case
    by (simp add: prescan_line_apply Cons.IH)
qed

lemma prescan_eq:
  "prescan gcode
   = (sum_list (map dist_XY (filter (\<lambda>l. cmd l = ''G1'' \<and> extruding l) gcode)),
      sum_list (map dist_Z (filter (\<lambda>l. cmd l = ''G1'' \<and> \<not> extruding l \<and> m_mask l Z) gcode)),
      (case filter (\<lambda>l. cmd l = ''G1'' \<and> \<not> extruding l \<and> m_mask l Z) gcode of
              [] \<Rightarrow> 0 | l # ls \<Rightarrow> new_Z l),
      filter (\<lambda>l. cmd l = ''G1'' \<and> \<not> extruding l \<and> m_mask l Z) gcode \<noteq> [])"
  unfolding prescan_def by (simp add: prescan_line_fold)

lemma rewrite_line_len:
  "len (rewrite_line z L H tin tout sm prev line st)
     = len st + (if extruding_horizontal_move line then dist_XY line else 0)"
  by (auto simp: rewrite_line_def extruding_horizontal_move_def Let_def split: prod.splits)

lemma rewrite_fold_len:
  "len (foldl (\<lambda>st line. rewrite_line z L H tin tout sm prev line st) st gcode)
     = len st + sum_list (map dist_XY (filter extruding_horizontal_move gcode))"
  by (induction gcode arbitrary: st) (simp_all add: rewrite_line_len)

lemma rewrite_line_new_gcode:
  "new_gcode (rewrite_line z L H tin tout False prev line st)
     = new_gcode st @
       (if cmd line = ''G1'' \<and> m_mask line Z then [GCodeLine_set Z z line]
        else if extruding_horizontal_move line then
          [GCodeLine_set Z (z + (len st + dist_XY line) / L * H)
             (if tin then GCodeLine_set E (m_axis line E * ((len st + dist_XY line) / L)) line
              else line)]
        else if cmd line = ''G1'' \<and> 0 < dist_XY line then []
        else [line])"
  by (auto simp: rewrite_line_def extruding_horizontal_move_def Let_def)

lemma rewrite_line_transition:
  "\<not> tout \<Longrightarrow> transition_gcode (rewrite_line z L H tin tout sm prev line st) = transition_gcode st"
  by (auto simp: rewrite_line_def Let_def split: prod.splits)

lemma rewrite_fold_transition:
  "\<not> tout \<Longrightarrow>
   transition_gcode (foldl (\<lambda>st line. rewrite_line z L H tin tout sm prev line st) st gcode)
     = transition_gcode st"
  by (induction gcode arbitrary: st) (simp_all add: rewrite_line_transition)

lemma cumulative_length_snoc:
  "cumulative_length (gcode @ [line]) (length gcode)
     = sum_list (map dist_XY (filter extruding_horizontal_move gcode))
       + (if extruding_horizontal_move line then dist_XY line else 0)"
  by (simp add: cumulative_length_def)

lemma spec_rewritten_line_append:
  "i < length gcode \<Longrightarrow>
   spec_rewritten_line z0 L H tin (gcode @ [line]) i = spec_rewritten_line z0 L H tin gcode i"
  by (simp add: spec_rewritten_line_def cumulative_length_def nth_append)

lemma rewrite_fold_new_gcode:
  "len st = 0 \<Longrightarrow>
   new_gcode (foldl (\<lambda>st line. rewrite_line z L H tin tout False prev line st) st gcode)
     = new_gcode st @ concat (map (spec_rewritten_line z L H tin gcode) [0..<length gcode])"
proof (induction gcode rule: rev_induct)
  case Nil
  then show ?case by simp
next
  case (snoc line gcode)
  let ?step = "\<lambda>st line. rewrite_line z L H tin tout False prev line st"
  have l: "len (foldl ?step st gcode)
      = sum_list (map dist_XY (filter extruding_horizontal_move gcode))"
    using snoc.prems by (simp add: rewrite_fold_len)
  have m: "map (spec_rewritten_line z L H tin (gcode @ [line])) [0..<length gcode]
      = map (spec_rewritten_line z L H tin gcode) [0..<length gcode]"
    by (rule map_cong) (simp_all add: spec_rewritten_line_append)
  have last: "spec_rewritten_line z L H tin (gcode @ [line]) (length gcode)
      = (if cmd line = ''G1'' \<and> m_mask line Z then [GCodeLine_set Z z line]
        else if extruding_horizontal_move line then
          [GCodeLine_set Z (z + (len (foldl ?step st gcode) + dist_XY line) / L * H)
             (if tin then GCodeLine_set E
                 (m_axis line E * ((len (foldl ?step st gcode) + dist_XY line) / L)) line
              else line)]
        else if cmd line = ''G1'' \<and> 0 < dist_XY line then []
        else [line])"
    unfolding l
    by (simp add: spec_rewritten_line_def cumulative_length_snoc Let_def)
  have "new_gcode (foldl ?step st (gcode @ [line]))
      = new_gcode (foldl ?step st gcode)
        @ spec_rewritten_line z L H tin (gcode @ [line]) (length gcode)"
    unfolding last by (simp add: rewrite_line_new_gcode)
  also have "\<dots> = new_gcode st @ concat (map (spec_rewritten_line z L H tin gcode) [0..<length gcode])
        @ spec_rewritten_line z L H tin (gcode @ [line]) (length gcode)"
    using snoc.IH [OF snoc.prems] by simp
  finally show ?case
    by (simp add: m)
qed

lemma horizontal_total:
  assumes "\<forall>l \<in> set gcode. cmd l = ''G1'' \<and> extruding l \<longrightarrow> \<not> m_mask l Z"
    and "\<forall>l \<in> set gcode. 0 \<le> dist_XY l"
  shows "sum_list (map dist_XY (filter (\<lambda>l. cmd l = ''G1'' \<and> extruding l) gcode))
       = sum_list (map dist_XY (filter extruding_horizontal_move gcode))"
  using assms
proof (induction gcode)
  case Nil
  then show ?case by simp
next
  case (Cons l gcode)
  then have "dist_XY l = 0 \<or> 0 < dist_XY l" by fastforce
  with Cons show ?case
    by (auto simp: extruding_horizontal_move_def)
qed

lemma filter_total_nonneg:
  "\<forall>l \<in> set gcode. 0 \<le> dist_XY l \<Longrightarrow> 0 \<le> sum_list (map dist_XY (filter P gcode))"
  by (induction gcode) auto

lemma filter_total_mono:
  "\<forall>l \<in> set gcode. 0 \<le> dist_XY l \<Longrightarrow> \<forall>l. P l \<longrightarrow> Q l \<Longrightarrow>
   sum_list (map dist_XY (filter P gcode)) \<le> sum_list (map dist_XY (filter Q gcode))"
  by (induction gcode) auto

lemma filter_total_take:
  assumes "\<forall>l \<in> set gcode. 0 \<le> dist_XY l"
  shows "sum_list (map dist_XY (filter P (take n gcode)))
       \<le> sum_list (map dist_XY (filter P gcode))"
proof -
  have "\<forall>l \<in> set (drop n gcode). 0 \<le> dist_XY l"
    using assms by (meson in_set_dropD)
  then have "0 \<le> sum_list (map dist_XY (filter P (drop n gcode)))"
    by (rule filter_total_nonneg)
  moreover have "sum_list (map dist_XY (filter P gcode))
      = sum_list (map dist_XY (filter P (take n gcode)))
        + sum_list (map dist_XY (filter P (drop n gcode)))"
    by (metis append_take_drop_id filter_append map_append sum_list.append)
  ultimately show ?thesis by simp
qed

lemma cumulative_length_bounds:
  assumes "\<forall>l \<in> set gcode. 0 \<le> dist_XY l" and "i < length gcode"
    and "extruding_horizontal_move (gcode ! i)"
  shows "0 < cumulative_length gcode i"
    and "cumulative_length gcode i
         \<le> sum_list (map dist_XY (filter (\<lambda>l. cmd l = ''G1'' \<and> extruding l) gcode))"
proof -
  have "\<forall>l \<in> set (take i gcode). 0 \<le> dist_XY l"
    using assms(1) by (meson in_set_takeD)
  then have "0 \<le> sum_list (map dist_XY (filter extruding_horizontal_move (take i gcode)))"
    by (rule filter_total_nonneg)
  moreover have "0 < dist_XY (gcode ! i)"
    using assms(3) by (simp add: extruding_horizontal_move_def)
  ultimately show "0 < cumulative_length gcode i"
    using assms(2,3) by (simp add: cumulative_length_def take_Suc_conv_app_nth)
  have "cumulative_length gcode i
      \<le> sum_list (map dist_XY (filter extruding_horizontal_move gcode))"
    unfolding cumulative_length_def using assms(1) by (rule filter_total_take)
  also have "\<dots> \<le> sum_list (map dist_XY (filter (\<lambda>l. cmd l = ''G1'' \<and> extruding l) gcode))"
    using assms(1) by (rule filter_total_mono) (simp add: extruding_horizontal_move_def)
  finally show "cumulative_length gcode i
         \<le> sum_list (map dist_XY (filter (\<lambda>l. cmd l = ''G1'' \<and> extruding l) gcode))" .
qed

lemma process_layer_no_smoothing:
  assumes "m_enabled sv" and "\<not> m_smooth_spiral sv"
  shows "\<exists>transition.
      fst (process_layer gcode last_layer sv)
        = concat (map (spec_rewritten_line
                         (fst (snd (snd (prescan gcode))) - fst (snd (prescan gcode)))
                         (fst (prescan gcode)) (fst (snd (prescan gcode)))
                         (m_transition_layer sv \<and> use_relative_e_distances (m_config sv)) gcode)
                    [0..<length gcode]) @ transition
      \<and> (\<not> (last_layer \<and> use_relative_e_distances (m_config sv)) \<longrightarrow> transition = [])"
proof -
  obtain L H zf sz where ps: "prescan gcode = (L, H, zf, sz)"
    by (metis prod_cases4)
  let ?tin = "m_transition_layer sv \<and> use_relative_e_distances (m_config sv)"
  let ?tout = "last_layer \<and> use_relative_e_distances (m_config sv)"
  let ?last0 = "case m_previous_layer sv of
                       None \<Rightarrow> (0, 0)
                     | Some previous \<Rightarrow>
                         if 0 < length previous then previous ! (length previous - 1) else (0, 0)"
  let ?init = "\<lparr>new_gcode = [], transition_gcode = [], len = 0, current_layer = [],
                    last_point = ?last0\<rparr>"
  let ?st = "foldl (\<lambda>st line. rewrite_line (zf - H) L H ?tin ?tout False (m_previous_layer sv) line st)
               ?init gcode"
  have out: "fst (process_layer gcode last_layer sv) = new_gcode ?st @ transition_gcode ?st"
    using assms by (simp add: process_layer_def ps Let_def)
  have new: "new_gcode ?st
      = concat (map (spec_rewritten_line (zf - H) L H ?tin gcode) [0..<length gcode])"
    using rewrite_fold_new_gcode [where st = ?init and z = "zf - H" and L = L and H = H
        and tin = ?tin and tout = ?tout and prev = "m_previous_layer sv" and gcode = gcode]
    by simp
  have tr: "\<not> ?tout \<longrightarrow> transition_gcode ?st = []"
    using rewrite_fold_transition [where tout = ?tout and z = "zf - H" and L = L and H = H
        and tin = ?tin and sm = False and prev = "m_previous_layer sv" and st = ?init
        and gcode = gcode]
    by simp
  show ?thesis
    unfolding out new ps using tr by simp
qed

text \<open>
  Claim C7. With the spiral vase enabled and XY smoothing disabled, let \<open>L\<close>, \<open>H\<close> and
  the height of the first Z move be what the first pass of \<open>process_layer\<close> computes,
  and \<open>z0\<close> that height less \<open>H\<close>. The output of \<open>process_layer\<close> is, line by line,
  \<open>spec_rewritten_line\<close>, followed by the transition lines (none unless this is the last
  layer in relative extrusion mode). Every extruding horizontal move of the layer is
  written once, with X and Y as they were and the Z word set to exactly
  \<open>z0 + (l / L) * H\<close>, \<open>l\<close> being the cumulative length at that move. \<open>L\<close> is the total
  XY length of the extruding \<^verbatim>\<open>G1\<close> lines, \<open>H\<close> the total Z distance of the
  non-extruding \<^verbatim>\<open>G1\<close> lines with a Z word, \<open>z0 + H\<close> the target of the first of them.
  In a layer where no extruding line carries a Z word and no distance is negative,
  \<open>L\<close> is the total XY length of the extruding horizontal moves; and where no distance
  is negative, \<open>0 < l \<le> L\<close> at every extruding horizontal move.
\<close>

theorem spiral_vase_linear_z:
  fixes gcode :: "GCodeLine list"
  defines "L \<equiv> fst (prescan gcode)"
    and "H \<equiv> fst (snd (prescan gcode))"
    and "z0 \<equiv> fst (snd (snd (prescan gcode))) - fst (snd (prescan gcode))"
  assumes "m_enabled sv" and "\<not> m_smooth_spiral sv"
  shows "(\<exists>transition.
            fst (process_layer gcode last_layer sv)
              = concat (map (spec_rewritten_line z0 L H
                               (m_transition_layer sv \<and> use_relative_e_distances (m_config sv))
                               gcode) [0..<length gcode]) @ transition
            \<and> (\<not> (last_layer \<and> use_relative_e_distances (m_config sv)) \<longrightarrow> transition = []))
       \<and> (\<forall>i < length gcode. extruding_horizontal_move (gcode ! i) \<longrightarrow>
            (\<exists>line. spec_rewritten_line z0 L H
                       (m_transition_layer sv \<and> use_relative_e_distances (m_config sv)) gcode i
                     = [line]
               \<and> m_mask line Z
               \<and> m_axis line Z = z0 + (cumulative_length gcode i / L) * H
               \<and> m_axis line X = m_axis (gcode ! i) X
               \<and> m_axis line Y = m_axis (gcode ! i) Y))
       \<and> L = sum_list (map dist_XY (filter (\<lambda>l. cmd l = ''G1'' \<and> extruding l) gcode))
       \<and> H = sum_list (map dist_Z
                 (filter (\<lambda>l. cmd l = ''G1'' \<and> \<not> extruding l \<and> m_mask l Z) gcode))
       \<and> z0 = (case filter (\<lambda>l. cmd l = ''G1'' \<and> \<not> extruding l \<and> m_mask l Z) gcode of
                 [] \<Rightarrow> 0 | l # ls \<Rightarrow> new_Z l) - H
       \<and> ((\<forall>l \<in> set gcode. cmd l = ''G1'' \<and> extruding l \<longrightarrow> \<not> m_mask l Z)
            \<and> (\<forall>l \<in> set gcode. 0 \<le> dist_XY l)
            \<longrightarrow> L = sum_list (map dist_XY (filter extruding_horizontal_move gcode)))
       \<and> ((\<forall>l \<in> set gcode. 0 \<le> dist_XY l)
            \<longrightarrow> (\<forall>i < length gcode. extruding_horizontal_move (gcode ! i) \<longrightarrow>
                   0 < cumulative_length gcode i \<and> cumulative_length gcode i \<le> L))"
proof -
  have a: "\<exists>transition.
            fst (process_layer gcode last_layer sv)
              = concat (map (spec_rewritten_line z0 L H
                               (m_transition_layer sv \<and> use_relative_e_distances (m_config sv))
                               gcode) [0..<length gcode]) @ transition
            \<and> (\<not> (last_layer \<and> use_relative_e_distances (m_config sv)) \<longrightarrow> transition = [])"
    unfolding L_def H_def z0_def
    using assms(4,5) by (rule process_layer_no_smoothing)
  have b: "\<forall>i < length gcode. extruding_horizontal_move (gcode ! i) \<longrightarrow>
            (\<exists>line. spec_rewritten_line z0 L H
                       (m_transition_layer sv \<and> use_relative_e_distances (m_config sv)) gcode i
                     = [line]
               \<and> m_mask line Z
               \<and> m_axis line Z = z0 + (cumulative_length gcode i / L) * H
               \<and> m_axis line X = m_axis (gcode ! i) X
               \<and> m_axis line Y = m_axis (gcode ! i) Y)"
    by (simp add: spec_rewritten_line_def extruding_horizontal_move_def GCodeLine_set_def Let_def)
  have c: "L = sum_list (map dist_XY (filter (\<lambda>l. cmd l = ''G1'' \<and> extruding l) gcode))"
    "H = sum_list (map dist_Z
                 (filter (\<lambda>l. cmd l = ''G1'' \<and> \<not> extruding l \<and> m_mask l Z) gcode))"
    "z0 = (case filter (\<lambda>l. cmd l = ''G1'' \<and> \<not> extruding l \<and> m_mask l Z) gcode of
                 [] \<Rightarrow> 0 | l # ls \<Rightarrow> new_Z l)
          - sum_list (map dist_Z
                 (filter (\<lambda>l. cmd l = ''G1'' \<and> \<not> extruding l \<and> m_mask l Z) gcode))"
    unfolding L_def H_def z0_def by (simp_all add: prescan_eq)
  have d: "(\<forall>l \<in> set gcode. cmd l = ''G1'' \<and> extruding l \<longrightarrow> \<not> m_mask l Z)
            \<and> (\<forall>l \<in> set gcode. 0 \<le> dist_XY l)
            \<longrightarrow> L = sum_list (map dist_XY (filter extruding_horizontal_move gcode))"
    unfolding c(1) using horizontal_total by blast
  have e: "(\<forall>l \<in> set gcode. 0 \<le> dist_XY l)
            \<longrightarrow> (\<forall>i < length gcode. extruding_horizontal_move (gcode ! i) \<longrightarrow>
                   0 < cumulative_length gcode i \<and> cumulative_length gcode i \<le> L)"
    unfolding c(1) using cumulative_length_bounds by blast
  from a b c d e show ?thesis by simp
qed

theorem spiral_vase_linear_z_witness:
  "m_enabled example_vase \<and> \<not> m_smooth_spiral example_vase
   \<and> extruding_horizontal_move (example_layer ! 1)
   \<and> extruding_horizontal_move (example_layer ! 2)
   \<and> prescan example_layer = (40, 1 / 4, 1 / 2, True)
   \<and> cumulative_length example_layer 1 = 10
   \<and> cumulative_length example_layer 2 = 40
   \<and> fst (process_layer example_layer False example_vase)
       = [GCodeLine_set Z (1 / 4) example_z_move,
          GCodeLine_set Z (1 / 4 + 10 / 40 * (1 / 4)) (example_line 10 0 1 10),
          GCodeLine_set Z (1 / 4 + 40 / 40 * (1 / 4)) (example_line 10 30 3 30)]"
proof -
  have h: "m_enabled example_vase" "\<not> m_smooth_spiral example_vase"
    by (simp_all add: example_vase_def)
  have e: "extruding_horizontal_move (example_line 10 0 1 10)"
    "extruding_horizontal_move (example_line 10 30 3 30)"
    "\<not> extruding_horizontal_move example_z_move"
    by (simp_all add: extruding_horizontal_move_def example_line_def example_z_move_def)
  have d: "dist_XY (example_line 10 0 1 10) = 10" "dist_XY (example_line 10 30 3 30) = 30"
    by (simp_all add: example_line_def)
  have ps: "prescan example_layer = (40, 1 / 4, 1 / 2, True)"
    by (simp add: prescan_eq example_layer_def example_line_def example_z_move_def)
  have c: "cumulative_length example_layer (Suc 0) = 10"
    "cumulative_length example_layer 2 = 40"
    using e by (simp_all add: cumulative_length_def example_layer_def d numeral_2_eq_2)
  have z: "cmd example_z_move = ''G1''" "m_mask example_z_move Z"
    "\<not> m_mask (example_line 10 0 1 10) Z" "\<not> m_mask (example_line 10 30 3 30) Z"
    by (simp_all add: example_line_def example_z_move_def)
  have u: "[0..<length example_layer] = [0, Suc 0, 2]"
    by (simp add: example_layer_def upt_rec numeral_2_eq_2)
  have n: "example_layer ! 0 = example_z_move"
    "example_layer ! Suc 0 = example_line 10 0 1 10"
    "example_layer ! 2 = example_line 10 30 3 30"
    by (simp_all add: example_layer_def numeral_2_eq_2)
  have t: "\<not> (m_transition_layer example_vase \<and> use_relative_e_distances (m_config example_vase))"
    by (simp add: example_vase_def)
  have s: "spec_rewritten_line (1 / 4) 40 (1 / 4) False example_layer 0
             = [GCodeLine_set Z (1 / 4) example_z_move]"
    "spec_rewritten_line (1 / 4) 40 (1 / 4) False example_layer (Suc 0)
             = [GCodeLine_set Z (1 / 4 + 10 / 40 * (1 / 4)) (example_line 10 0 1 10)]"
    "spec_rewritten_line (1 / 4) 40 (1 / 4) False example_layer 2
             = [GCodeLine_set Z (1 / 4 + 40 / 40 * (1 / 4)) (example_line 10 30 3 30)]"
    unfolding spec_rewritten_line_def n c Let_def using e z by simp_all
  from spiral_vase_linear_z [OF h, of example_layer False]
  obtain transition where
    a: "fst (process_layer example_layer False example_vase)
       = concat (map (spec_rewritten_line
                         (fst (snd (snd (prescan example_layer))) - fst (snd (prescan example_layer)))
                         (fst (prescan example_layer)) (fst (snd (prescan example_layer)))
                         (m_transition_layer example_vase
                            \<and> use_relative_e_distances (m_config example_vase))
                         example_layer) [0..<length example_layer])
         @ transition"
    and b: "\<not> (False \<and> use_relative_e_distances (m_config example_vase)) \<longrightarrow> transition = []"
    by blast
  have "fst (process_layer example_layer False example_vase)
       = spec_rewritten_line (1 / 4) 40 (1 / 4) False example_layer 0
         @ spec_rewritten_line (1 / 4) 40 (1 / 4) False example_layer (Suc 0)
         @ spec_rewritten_line (1 / 4) 40 (1 / 4) False example_layer 2"
    using a b t unfolding ps u by simp
  then have "fst (process_layer example_layer False example_vase)
       = [GCodeLine_set Z (1 / 4) example_z_move,
          GCodeLine_set Z (1 / 4 + 10 / 40 * (1 / 4)) (example_line 10 0 1 10),
          GCodeLine_set Z (1 / 4 + 40 / 40 * (1 / 4)) (example_line 10 30 3 30)]"
    by (simp only: s append.simps)
  with h e ps c n show ?thesis by simp
qed

subsection \<open>Spiral vase: XY smoothing skipped\<close>








end
